theory Spec2Isabelle
  imports Main "HOL-Library.Word" "HOL-Library.Signed_Division"
begin

unbundle bit_operations_syntax

section \<open>Data model (common.h, public.h, event.c)\<close>

text \<open>
  Addresses are natural numbers; a \<^verbatim>\<open>void *\<close> is an address with 0 for NULL, a pointer to a
  thread control block is a \<open>tid option\<close> with \<open>None\<close> for NULL.  \<^verbatim>\<open>st_utime_t\<close> is
  \<^verbatim>\<open>unsigned long long\<close>, a 64-bit word.  A C \<^verbatim>\<open>int\<close> used as a bit set is a 32-bit word, a
  \<^verbatim>\<open>short\<close> bit set a 16-bit word; a C \<^verbatim>\<open>int\<close> used as a counter or an index is an
  \<open>int\<close> without a bound (no statement below depends on the overflow of one).  A leading
  underscore of a C name is dropped, since an Isabelle name starts with a letter.
\<close>

type_synonym ptr = nat
type_synonym tid = nat
type_synonym st_utime_t = "64 word"

abbreviation (input) ST_UTIME_NO_TIMEOUT :: st_utime_t where "ST_UTIME_NO_TIMEOUT \<equiv> - 1"
abbreviation (input) ST_KEYS_MAX :: int where "ST_KEYS_MAX \<equiv> 16"

text \<open>Thread states and flags, as the \<^verbatim>\<open>#define\<close>s of common.h give them.\<close>

abbreviation (input) ST_ST_RUNNING :: int where "ST_ST_RUNNING \<equiv> 0"
abbreviation (input) ST_ST_RUNNABLE :: int where "ST_ST_RUNNABLE \<equiv> 1"
abbreviation (input) ST_ST_IO_WAIT :: int where "ST_ST_IO_WAIT \<equiv> 2"
abbreviation (input) ST_ST_LOCK_WAIT :: int where "ST_ST_LOCK_WAIT \<equiv> 3"
abbreviation (input) ST_ST_COND_WAIT :: int where "ST_ST_COND_WAIT \<equiv> 4"
abbreviation (input) ST_ST_SLEEPING :: int where "ST_ST_SLEEPING \<equiv> 5"
abbreviation (input) ST_ST_ZOMBIE :: int where "ST_ST_ZOMBIE \<equiv> 6"
abbreviation (input) ST_ST_SUSPENDED :: int where "ST_ST_SUSPENDED \<equiv> 7"

abbreviation (input) ST_FL_PRIMORDIAL :: "32 word" where "ST_FL_PRIMORDIAL \<equiv> 0x01"
abbreviation (input) ST_FL_IDLE_THREAD :: "32 word" where "ST_FL_IDLE_THREAD \<equiv> 0x02"
abbreviation (input) ST_FL_ON_SLEEPQ :: "32 word" where "ST_FL_ON_SLEEPQ \<equiv> 0x04"
abbreviation (input) ST_FL_INTERRUPT :: "32 word" where "ST_FL_INTERRUPT \<equiv> 0x08"
abbreviation (input) ST_FL_TIMEDOUT :: "32 word" where "ST_FL_TIMEDOUT \<equiv> 0x10"

text \<open>
  The values of \<^verbatim>\<open>errno\<close> and the event bits of \<^verbatim>\<open><poll.h>\<close> and \<^verbatim>\<open><sys/epoll.h>\<close> come from
  the system headers: the Linux values, the platform of the epoll event system.
\<close>

abbreviation (input) EPERM :: int where "EPERM \<equiv> 1"
abbreviation (input) EINTR :: int where "EINTR \<equiv> 4"
abbreviation (input) EBADF :: int where "EBADF \<equiv> 9"
abbreviation (input) EAGAIN :: int where "EAGAIN \<equiv> 11"
abbreviation (input) EBUSY :: int where "EBUSY \<equiv> 16"
abbreviation (input) EEXIST :: int where "EEXIST \<equiv> 17"
abbreviation (input) EINVAL :: int where "EINVAL \<equiv> 22"
abbreviation (input) EDEADLK :: int where "EDEADLK \<equiv> 35"
abbreviation (input) ETIME :: int where "ETIME \<equiv> 62"

abbreviation (input) POLLIN :: "16 word" where "POLLIN \<equiv> 0x001"
abbreviation (input) POLLPRI :: "16 word" where "POLLPRI \<equiv> 0x002"
abbreviation (input) POLLOUT :: "16 word" where "POLLOUT \<equiv> 0x004"
abbreviation (input) POLLERR :: "16 word" where "POLLERR \<equiv> 0x008"
abbreviation (input) POLLHUP :: "16 word" where "POLLHUP \<equiv> 0x010"
abbreviation (input) POLLNVAL :: "16 word" where "POLLNVAL \<equiv> 0x020"

abbreviation (input) EPOLLIN :: "32 word" where "EPOLLIN \<equiv> 0x001"
abbreviation (input) EPOLLPRI :: "32 word" where "EPOLLPRI \<equiv> 0x002"
abbreviation (input) EPOLLOUT :: "32 word" where "EPOLLOUT \<equiv> 0x004"
abbreviation (input) EPOLLERR :: "32 word" where "EPOLLERR \<equiv> 0x008"
abbreviation (input) EPOLLHUP :: "32 word" where "EPOLLHUP \<equiv> 0x010"

text \<open>
  \<^verbatim>\<open>_st_stack_t\<close>, without its list anchor: the mapping \<open>vaddr\<close> of \<open>vaddr_size\<close> bytes, and
  inside it the stack of \<open>stk_size\<close> bytes from \<open>stk_bottom\<close> to \<open>stk_top\<close>.  Addresses are
  integers.
\<close>

record st_stack =
  vaddr :: int
  vaddr_size :: int
  stk_size :: int
  stk_bottom :: int
  stk_top :: int
  sp :: int

text \<open>
  \<^verbatim>\<open>struct _st_thread\<close>.  The two list anchors \<^verbatim>\<open>links\<close> and \<^verbatim>\<open>wait_links\<close> are the membership
  of the thread in the queues below; the saved machine context is left out.  \<open>stack\<close> is the
  \<^verbatim>\<open>_st_stack_t\<close> the field points to, \<^verbatim>\<open>private_data\<close> is the array of \<open>ST_KEYS_MAX\<close> slots the
  field points to; \<open>term_cv\<close> is the field \<^verbatim>\<open>term\<close>.
\<close>

record st_thread =
  state :: int
  flags :: "32 word"
  start :: ptr
  arg :: ptr
  retval :: ptr
  stack :: "st_stack option"
  due :: st_utime_t
  left :: "tid option"
  right :: "tid option"
  heap_index :: int
  private_data :: "int \<Rightarrow> ptr"
  term_cv :: "nat option"

text \<open>
  A circular doubly linked list (\<^verbatim>\<open>_st_clist_t\<close>) is the list of its members from head to
  tail: \<^verbatim>\<open>ST_APPEND_LINK\<close> appends at the end, \<^verbatim>\<open>ST_REMOVE_LINK\<close> takes the member out of the
  list its anchor is linked in, \<^verbatim>\<open>ST_CLIST_IS_EMPTY\<close> compares with \<open>[]\<close>.  A control block has
  one anchor for the run and zombie queues (\<^verbatim>\<open>links\<close>) and one for the wait queues
  (\<^verbatim>\<open>wait_links\<close>); the lists are exact as long as an anchor is appended while it is linked in
  no list, as it is for a fiber that is blocked or new.
\<close>

record st_cond =
  wait_q :: "tid list"

record st_mutex =
  owner :: "tid option"
  lock_wait_q :: "tid list"

text \<open>\<^verbatim>\<open>struct pollfd\<close>, and \<^verbatim>\<open>_st_pollq_t\<close> with the array \<^verbatim>\<open>pds\<close> of \<^verbatim>\<open>npds\<close> entries as the list \<open>pq_pds\<close>.\<close>

record pollfd =
  fd :: int
  events :: "16 word"
  revents :: "16 word"

record st_pollq =
  pq_thread :: tid
  pq_pds :: "pollfd list"
  on_ioq :: int

text \<open>\<^verbatim>\<open>_epoll_fd_data_t\<close>; \<open>fd_revents\<close> is its field \<^verbatim>\<open>revents\<close>.\<close>

record epoll_fd_data =
  rd_ref_cnt :: int
  wr_ref_cnt :: int
  ex_ref_cnt :: int
  fd_revents :: "32 word"

datatype epoll_op = EPOLL_CTL_ADD | EPOLL_CTL_DEL | EPOLL_CTL_MOD

text \<open>One call of \<^verbatim>\<open>epoll_ctl\<close>: the operation, the descriptor and the event mask passed.\<close>

type_synonym epoll_call = "epoll_op \<times> int \<times> 32 word"

text \<open>
  The globals of the runtime in one record: the thread control blocks, condition variables
  and mutexes by address; the \<^verbatim>\<open>_st_pollq_t\<close> that \<^verbatim>\<open>st_poll\<close> keeps in its stack frame, by the
  polling thread; \<^verbatim>\<open>errno\<close>; \<^verbatim>\<open>_st_this_thread\<close> and \<^verbatim>\<open>_st_active_count\<close>; the fields of the
  singleton \<^verbatim>\<open>_st_this_vp\<close> (\<open>idle_thread\<close> to \<open>sleepq_size\<close>; \<open>io_q\<close> lists the polling threads
  whose \<^verbatim>\<open>_st_pollq_t\<close> is linked), with the cached time \<^verbatim>\<open>_st_curr_time\<close> and \<^verbatim>\<open>_st_last_tset\<close> of
  sched.c among them; the statics of key.c; the fields of \<^verbatim>\<open>_st_epoll_data\<close>;
  the statics of stk.c (\<open>free_stacks\<close> is the list \<^verbatim>\<open>_st_free_stacks\<close>).
  The other fields are the environment: the destructor calls made so far (a destructor is
  foreign code, only the call is recorded), the \<^verbatim>\<open>epoll_ctl\<close> calls made so far, the kernel's
  answer to an \<^verbatim>\<open>epoll_ctl\<close> call after a given history (0, or the \<^verbatim>\<open>errno\<close> of its failure),
  whether \<^verbatim>\<open>realloc\<close> to a given number of table entries succeeds, whether \<^verbatim>\<open>calloc\<close> of a
  \<^verbatim>\<open>_st_stack_t\<close> succeeds, the address \<^verbatim>\<open>mmap\<close> answers for a given length (\<open>None\<close> for
  \<^verbatim>\<open>MAP_FAILED\<close>), the next value of \<^verbatim>\<open>random()\<close>, and \<open>thread_bytes\<close>, the number
  \<^verbatim>\<open>sizeof(_st_thread_t) + ST_KEYS_MAX * sizeof(void*)\<close> of the platform.
\<close>

record runtime =
  threads :: "tid \<Rightarrow> st_thread"
  conds :: "nat \<Rightarrow> st_cond"
  mutexes :: "nat \<Rightarrow> st_mutex"
  pollqs :: "tid \<Rightarrow> st_pollq"
  errno :: int
  this_thread :: tid
  active_count :: int
  idle_thread :: "tid option"
  last_clock :: st_utime_t
  curr_time :: int
  last_tset :: st_utime_t
  run_q :: "tid list"
  io_q :: "tid list"
  zombie_q :: "tid list"
  pagesize :: int
  sleep_q :: "tid option"
  sleepq_size :: int
  key_max :: int
  destructors :: "int \<Rightarrow> ptr"
  fd_data :: "int \<Rightarrow> epoll_fd_data"
  fd_data_size :: int
  evtlist_size :: int
  evtlist_cnt :: int
  epfd :: int
  destructor_calls :: "(ptr \<times> ptr) list"
  ctl_log :: "epoll_call list"
  kernel_ctl :: "epoll_call list \<Rightarrow> epoll_call \<Rightarrow> int"
  realloc_ok :: "int \<Rightarrow> bool"
  free_stacks :: "st_stack list"
  num_free_stacks :: int
  randomize_stacks :: int
  calloc_ok :: bool
  mmap_addr :: "int \<Rightarrow> int option"
  random_value :: int
  thread_bytes :: int

text \<open>Updating one thread control block in place.\<close>

definition upd_thread :: "tid \<Rightarrow> (st_thread \<Rightarrow> st_thread) \<Rightarrow> runtime \<Rightarrow> runtime" where
  "upd_thread t f s = s\<lparr>threads := (threads s)(t := f (threads s t))\<rparr>"

text \<open>A control block and its slots after \<^verbatim>\<open>memset\<close> to 0.\<close>

definition zero_thread :: st_thread where
  "zero_thread = \<lparr>state = 0, flags = 0, start = 0, arg = 0, retval = 0, stack = None, due = 0,
     left = None, right = None, heap_index = 0, private_data = (\<lambda>_. 0), term_cv = None\<rparr>"

text \<open>
  How a call can fail to return: a NULL pointer is dereferenced (\<open>NullDeref\<close>), an integer
  division traps (\<open>DivByZero\<close>), a loop of the function never ends (\<open>Hang\<close>), the fiber
  that switched to the scheduler is never resumed (\<open>NotResumed\<close>), memory that is not
  accessible is written (\<open>MemFault\<close>), or an \<^verbatim>\<open>assert\<close> fails (\<open>AssertFailed\<close>).
\<close>

datatype abort = NullDeref | DivByZero | Hang | NotResumed | MemFault | AssertFailed

text \<open>
  The C type \<^verbatim>\<open>int\<close> has 32 bits.  The counters of the runtime, which change by one at a time,
  are unbounded integers here; where the code shifts an \<^verbatim>\<open>int\<close> or computes a size from an
  argument of the caller, the result is taken back into the range of \<^verbatim>\<open>int\<close> by \<open>wrap_int\<close>,
  the two's-complement wrap-around.
\<close>

definition wrap_int :: "int \<Rightarrow> int" where
  "wrap_int x = (x + 2147483648) mod 4294967296 - 2147483648"

section \<open>The epoll event system (event.c)\<close>

abbreviation (input) ENOMEM :: int where "ENOMEM \<equiv> 12"

text \<open>The table \<^verbatim>\<open>fd_data\<close> is indexed by the descriptor; the code checks no bound here.\<close>

definition upd_fd :: "int \<Rightarrow> (epoll_fd_data \<Rightarrow> epoll_fd_data) \<Rightarrow> runtime \<Rightarrow> runtime" where
  "upd_fd osfd f s = s\<lparr>fd_data := (fd_data s)(osfd := f (fd_data s osfd))\<rparr>"

text \<open>The macro \<^verbatim>\<open>_ST_EPOLL_EVENTS(fd)\<close>: the interest mask the three counts give.\<close>

definition ST_EPOLL_EVENTS :: "runtime \<Rightarrow> int \<Rightarrow> 32 word" where
  "ST_EPOLL_EVENTS s osfd =
     (if rd_ref_cnt (fd_data s osfd) \<noteq> 0 then EPOLLIN else 0) OR
     (if wr_ref_cnt (fd_data s osfd) \<noteq> 0 then EPOLLOUT else 0) OR
     (if ex_ref_cnt (fd_data s osfd) \<noteq> 0 then EPOLLPRI else 0)"

text \<open>
  The system call \<^verbatim>\<open>epoll_ctl(epfd, op, fd, &ev)\<close>: the call is recorded, the kernel answers;
  on failure \<^verbatim>\<open>errno\<close> is set and the result is \<open>- 1\<close>.
\<close>

definition epoll_ctl :: "runtime \<Rightarrow> epoll_op \<Rightarrow> int \<Rightarrow> 32 word \<Rightarrow> runtime \<times> int" where
  "epoll_ctl s opc osfd ev =
     (let r = kernel_ctl s (ctl_log s) (opc, osfd, ev);
          s1 = s\<lparr>ctl_log := ctl_log s @ [(opc, osfd, ev)]\<rparr>
      in if r = 0 then (s1, 0) else (s1\<lparr>errno := r\<rparr>, - 1))"

text \<open>
  The body of the loop of \<^verbatim>\<open>_st_epoll_pollset_del\<close>, for the entry \<open>pd\<close>: first the three
  conditional decrements of the reference counts (\<open>dec_ref_cnts\<close>), then the kernel call.
\<close>

definition dec_ref_cnts :: "runtime \<Rightarrow> pollfd \<Rightarrow> runtime" where
  "dec_ref_cnts s pd =
     (let s1 = (if (events pd AND POLLIN) \<noteq> 0
                then upd_fd (fd pd) (\<lambda>d. d\<lparr>rd_ref_cnt := rd_ref_cnt d - 1\<rparr>) s else s);
          s2 = (if (events pd AND POLLOUT) \<noteq> 0
                then upd_fd (fd pd) (\<lambda>d. d\<lparr>wr_ref_cnt := wr_ref_cnt d - 1\<rparr>) s1 else s1)
      in if (events pd AND POLLPRI) \<noteq> 0
         then upd_fd (fd pd) (\<lambda>d. d\<lparr>ex_ref_cnt := ex_ref_cnt d - 1\<rparr>) s2 else s2)"

definition pollset_del_body :: "runtime \<Rightarrow> pollfd \<Rightarrow> runtime" where
  "pollset_del_body s pd =
     (let old_events = ST_EPOLL_EVENTS s (fd pd);
          s3 = dec_ref_cnts s pd;
          evs = ST_EPOLL_EVENTS s3 (fd pd)
      in if evs \<noteq> old_events \<and> fd_revents (fd_data s3 (fd pd)) = 0 then
           (let opc = (if evs \<noteq> 0 then EPOLL_CTL_MOD else EPOLL_CTL_DEL);
                (s4, r) = epoll_ctl s3 opc (fd pd) evs
            in if r = 0 \<and> opc = EPOLL_CTL_DEL
               then s4\<lparr>evtlist_cnt := evtlist_cnt s4 - 1\<rparr> else s4)
         else s3)"

text \<open>\<^verbatim>\<open>_st_epoll_pollset_del(pds, npds)\<close>: the loop over the \<^verbatim>\<open>npds\<close> entries.\<close>

fun st_epoll_pollset_del :: "runtime \<Rightarrow> pollfd list \<Rightarrow> runtime" where
  "st_epoll_pollset_del s [] = s"
| "st_epoll_pollset_del s (pd # rest) = st_epoll_pollset_del (pollset_del_body s pd) rest"

text \<open>
  \<^verbatim>\<open>_st_epoll_fd_data_expand(maxfd)\<close>.  Its loop \<^verbatim>\<open>while (maxfd >= n) n <<= 1;\<close> doubles the
  \<^verbatim>\<open>int\<close> \<open>n\<close>: from \<open>2 ^ 30\<close> the shift gives \<open>- (2 ^ 31)\<close> and then 0, and from \<open>n = 0\<close> the
  loop does not end.  The new entries are zeroed; a failed \<^verbatim>\<open>realloc\<close> sets \<^verbatim>\<open>errno\<close>.
\<close>

partial_function (option) fd_data_expand_size :: "int \<Rightarrow> int \<Rightarrow> int option" where
  "fd_data_expand_size maxfd n =
     (if maxfd \<ge> n then fd_data_expand_size maxfd (wrap_int (push_bit 1 n)) else Some n)"

definition st_epoll_fd_data_expand :: "runtime \<Rightarrow> int \<Rightarrow> abort + (runtime \<times> int)" where
  "st_epoll_fd_data_expand s maxfd =
     (case fd_data_expand_size maxfd (fd_data_size s) of
        None \<Rightarrow> Inl Hang
      | Some n \<Rightarrow>
          if \<not> realloc_ok s n then Inr (s\<lparr>errno := ENOMEM\<rparr>, - 1)
          else Inr (s\<lparr>fd_data := (\<lambda>i. if fd_data_size s \<le> i \<and> i < n
                                      then \<lparr>rd_ref_cnt = 0, wr_ref_cnt = 0, ex_ref_cnt = 0, fd_revents = 0\<rparr>
                                      else fd_data s i),
                      fd_data_size := n\<rparr>, 0))"

text \<open>\<^verbatim>\<open>_st_epoll_evtlist_expand\<close>, with its loop \<^verbatim>\<open>while (evtlist_cnt > n) n <<= 1;\<close>.\<close>

partial_function (option) evtlist_expand_size :: "int \<Rightarrow> int \<Rightarrow> int option" where
  "evtlist_expand_size cnt n =
     (if cnt > n then evtlist_expand_size cnt (wrap_int (push_bit 1 n)) else Some n)"

definition st_epoll_evtlist_expand :: "runtime \<Rightarrow> abort + runtime" where
  "st_epoll_evtlist_expand s =
     (case evtlist_expand_size (evtlist_cnt s) (evtlist_size s) of
        None \<Rightarrow> Inl Hang
      | Some n \<Rightarrow> Inr (if realloc_ok s n then s\<lparr>evtlist_size := n\<rparr> else s\<lparr>errno := ENOMEM\<rparr>))"

text \<open>
  \<^verbatim>\<open>_st_epoll_pollset_add(pds, npds)\<close>.  \<open>pollset_add_check\<close> is its first loop (the result
  \<open>- 1\<close> is the early return), \<open>pollset_add_loop\<close> its second, from index \<open>i\<close> on, with the
  value of \<^verbatim>\<open>i\<close> when the loop is left; then the rollback of the entries up to the failed one.
\<close>

fun pollset_add_check :: "runtime \<Rightarrow> pollfd list \<Rightarrow> abort + (runtime \<times> int)" where
  "pollset_add_check s [] = Inr (s, 0)"
| "pollset_add_check s (pd # rest) =
     (if fd pd < 0 \<or> events pd = 0 \<or> (events pd AND NOT (POLLIN OR POLLOUT OR POLLPRI)) \<noteq> 0
      then Inr (s\<lparr>errno := EINVAL\<rparr>, - 1)
      else if fd pd \<ge> fd_data_size s then
        (case st_epoll_fd_data_expand s (fd pd) of
           Inl e \<Rightarrow> Inl e
         | Inr (s1, r) \<Rightarrow> if r < 0 then Inr (s1, - 1) else pollset_add_check s1 rest)
      else pollset_add_check s rest)"

definition inc_ref_cnts :: "runtime \<Rightarrow> pollfd \<Rightarrow> runtime" where
  "inc_ref_cnts s pd =
     (let s1 = (if (events pd AND POLLIN) \<noteq> 0
                then upd_fd (fd pd) (\<lambda>d. d\<lparr>rd_ref_cnt := rd_ref_cnt d + 1\<rparr>) s else s);
          s2 = (if (events pd AND POLLOUT) \<noteq> 0
                then upd_fd (fd pd) (\<lambda>d. d\<lparr>wr_ref_cnt := wr_ref_cnt d + 1\<rparr>) s1 else s1)
      in if (events pd AND POLLPRI) \<noteq> 0
         then upd_fd (fd pd) (\<lambda>d. d\<lparr>ex_ref_cnt := ex_ref_cnt d + 1\<rparr>) s2 else s2)"

fun pollset_add_loop :: "runtime \<Rightarrow> pollfd list \<Rightarrow> int \<Rightarrow> abort + (runtime \<times> int)" where
  "pollset_add_loop s [] i = Inr (s, i)"
| "pollset_add_loop s (pd # rest) i =
     (let old_events = ST_EPOLL_EVENTS s (fd pd);
          s3 = inc_ref_cnts s pd;
          evs = ST_EPOLL_EVENTS s3 (fd pd)
      in if evs \<noteq> old_events then
           (let opc = (if old_events \<noteq> 0 then EPOLL_CTL_MOD else EPOLL_CTL_ADD);
                (s4, r) = epoll_ctl s3 opc (fd pd) evs
            in if r < 0 \<and> (opc \<noteq> EPOLL_CTL_ADD \<or> errno s4 \<noteq> EEXIST) then Inr (s4, i)
               else if opc = EPOLL_CTL_ADD then
                 (let s5 = s4\<lparr>evtlist_cnt := evtlist_cnt s4 + 1\<rparr>
                  in if evtlist_cnt s5 > evtlist_size s5 then
                       (case st_epoll_evtlist_expand s5 of
                          Inl e \<Rightarrow> Inl e
                        | Inr s6 \<Rightarrow> pollset_add_loop s6 rest (i + 1))
                     else pollset_add_loop s5 rest (i + 1))
               else pollset_add_loop s4 rest (i + 1))
         else pollset_add_loop s3 rest (i + 1))"

definition st_epoll_pollset_add :: "runtime \<Rightarrow> pollfd list \<Rightarrow> abort + (runtime \<times> int)" where
  "st_epoll_pollset_add s ps =
     (case pollset_add_check s ps of
        Inl e \<Rightarrow> Inl e
      | Inr (s1, r) \<Rightarrow>
          if r < 0 then Inr (s1, - 1)
          else
            (case pollset_add_loop s1 ps 0 of
               Inl e \<Rightarrow> Inl e
             | Inr (s2, i) \<Rightarrow>
                 if i < int (length ps) then
                   (let err = errno s2;
                        s3 = st_epoll_pollset_del s2 (take (nat (i + 1)) ps)
                    in Inr (s3\<lparr>errno := err\<rparr>, - 1))
                 else Inr (s2, 0)))"

section \<open>The sleep heap (sched.c)\<close>

text \<open>
  A \<^verbatim>\<open>_st_thread_t **\<close>: the address of the root pointer \<^verbatim>\<open>_ST_SLEEPQ\<close>, or of the field
  \<^verbatim>\<open>left\<close> or \<^verbatim>\<open>right\<close> of a control block.  \<open>deref\<close> reads \<^verbatim>\<open>*p\<close>, \<open>assign\<close> writes it.
\<close>

datatype slot = Root | LeftOf tid | RightOf tid

fun deref :: "runtime \<Rightarrow> slot \<Rightarrow> tid option" where
  "deref s Root = sleep_q s"
| "deref s (LeftOf t) = left (threads s t)"
| "deref s (RightOf t) = right (threads s t)"

fun assign :: "slot \<Rightarrow> tid option \<Rightarrow> runtime \<Rightarrow> runtime" where
  "assign Root v s = s\<lparr>sleep_q := v\<rparr>"
| "assign (LeftOf t) v s = upd_thread t (\<lambda>th. th\<lparr>left := v\<rparr>) s"
| "assign (RightOf t) v s = upd_thread t (\<lambda>th. th\<lparr>right := v\<rparr>) s"

text \<open>
  The first loop of \<^verbatim>\<open>heap_insert\<close>, \<^verbatim>\<open>while (s) { s >> 1; bits++; }\<close>.  The statement
  \<^verbatim>\<open>s >> 1;\<close> computes a value and drops it, so \<^verbatim>\<open>s\<close> is the same in every round, and the
  test of the loop reads \<^verbatim>\<open>s\<close> alone: whatever the count \<^verbatim>\<open>bits\<close> does, a loop that is entered
  is never left.  \<open>None\<close> is the run that never leaves it.
\<close>

partial_function (option) heap_insert_bits :: "int \<Rightarrow> int \<Rightarrow> int option" where
  "heap_insert_bits sz nbits =
     (if sz \<noteq> 0 then heap_insert_bits sz (nbits + 1) else Some nbits)"

text \<open>
  The second loop of \<^verbatim>\<open>heap_insert\<close>, \<^verbatim>\<open>for (bit = bits - 2; bit >= 0; bit--)\<close>, from the round
  of \<open>b\<close> on; the result is the state with the values of \<^verbatim>\<open>thread\<close>, \<^verbatim>\<open>p\<close> and \<^verbatim>\<open>index\<close> at its
  end.  Reading \<^verbatim>\<open>(*p)->due\<close> or taking the address of a field of \<^verbatim>\<open>*p\<close> when \<^verbatim>\<open>*p\<close> is NULL
  is the fault \<open>NullDeref\<close>.
\<close>

function heap_insert_walk ::
  "int \<Rightarrow> int \<Rightarrow> runtime \<Rightarrow> tid \<Rightarrow> slot \<Rightarrow> int \<Rightarrow> abort + (runtime \<times> tid \<times> slot \<times> int)" where
  "heap_insert_walk target b s thread p index =
     (if b \<ge> 0 then
        (case deref s p of
           None \<Rightarrow> Inl NullDeref
         | Some t \<Rightarrow>
            (let (s1, thread1) =
                   (if due (threads s thread) < due (threads s t) then
                      (let sa = upd_thread thread (\<lambda>th. th\<lparr>left := left (threads s t)\<rparr>) s;
                           sb = upd_thread thread (\<lambda>th. th\<lparr>right := right (threads sa t)\<rparr>) sa;
                           sc = assign p (Some thread) sb;
                           sd = upd_thread thread (\<lambda>th. th\<lparr>heap_index := index\<rparr>) sc
                       in (sd, t))
                    else (s, thread))
             in (case deref s1 p of
                   None \<Rightarrow> Inl NullDeref
                 | Some q \<Rightarrow>
                     if (target AND push_bit (nat b) 1) \<noteq> 0
                     then heap_insert_walk target (b - 1) s1 thread1 (RightOf q) (push_bit 1 index OR 1)
                     else heap_insert_walk target (b - 1) s1 thread1 (LeftOf q) (push_bit 1 index))))
      else Inr (s, thread, p, index))"
  by pat_completeness auto
termination
  by (relation "measure (\<lambda>(target, b, s, thread, p, index). nat (b + 1))") auto

declare heap_insert_walk.simps [simp del]

definition heap_insert :: "runtime \<Rightarrow> tid \<Rightarrow> abort + (runtime \<times> slot)" where
  "heap_insert s thread =
     (let target = heap_index (threads s thread) in
      case heap_insert_bits target 0 of
        None \<Rightarrow> Inl Hang
      | Some nbits \<Rightarrow>
         (case heap_insert_walk target (nbits - 2) s thread Root 1 of
            Inl e \<Rightarrow> Inl e
          | Inr (s1, thread1, p, index) \<Rightarrow>
             (let s2 = upd_thread thread1 (\<lambda>th. th\<lparr>heap_index := index\<rparr>) s1;
                  s3 = assign p (Some thread1) s2;
                  s4 = upd_thread thread1 (\<lambda>th. th\<lparr>left := None, right := None\<rparr>) s3
              in Inr (s4, p))))"

text \<open>
  The first loop of \<^verbatim>\<open>heap_delete\<close>, \<^verbatim>\<open>while (s) { s >>= 1; bits++; }\<close>; the shift of a negative
  \<^verbatim>\<open>int\<close> is the arithmetic one.
\<close>

partial_function (option) heap_delete_bits :: "int \<Rightarrow> int \<Rightarrow> int option" where
  "heap_delete_bits sz nbits =
     (if sz \<noteq> 0 then heap_delete_bits (drop_bit 1 sz) (nbits + 1) else Some nbits)"

text \<open>The second loop of \<^verbatim>\<open>heap_delete\<close>: the path to the last element; the result is \<^verbatim>\<open>p\<close>.\<close>

function heap_delete_path :: "int \<Rightarrow> int \<Rightarrow> runtime \<Rightarrow> slot \<Rightarrow> abort + slot" where
  "heap_delete_path sz b s p =
     (if b \<ge> 0 then
        (case deref s p of
           None \<Rightarrow> Inl NullDeref
         | Some q \<Rightarrow>
             if (sz AND push_bit (nat b) 1) \<noteq> 0
             then heap_delete_path sz (b - 1) s (RightOf q)
             else heap_delete_path sz (b - 1) s (LeftOf q))
      else Inr p)"
  by pat_completeness auto
termination
  by (relation "measure (\<lambda>(sz, b, s, p). nat (b + 1))") auto

declare heap_delete_path.simps [simp del]

text \<open>
  The loop \<^verbatim>\<open>for (;;)\<close> of \<^verbatim>\<open>heap_delete\<close> that sinks \<^verbatim>\<open>t\<close>, hanging at \<^verbatim>\<open>*p\<close>, below its
  younger child \<^verbatim>\<open>y\<close> while \<^verbatim>\<open>t->due > y->due\<close>.  On links that form a cycle it does not end.
\<close>

partial_function (option) heap_sift :: "runtime \<Rightarrow> slot \<Rightarrow> tid \<Rightarrow> runtime option" where
  "heap_sift s p t =
     (case left (threads s t) of
        None \<Rightarrow> Some s
      | Some l \<Rightarrow>
         (let y = (case right (threads s t) of
                     None \<Rightarrow> l
                   | Some r \<Rightarrow> if due (threads s l) < due (threads s r) then l else r)
          in if due (threads s t) > due (threads s y) then
               (let tl = left (threads s y);
                    tr = right (threads s y);
                    s1 = assign p (Some y) s;
                    s3 = (if Some y = left (threads s1 t) then
                            (let s2 = upd_thread y (\<lambda>th. th\<lparr>left := Some t\<rparr>) s1
                             in upd_thread y (\<lambda>th. th\<lparr>right := right (threads s2 t)\<rparr>) s2)
                          else
                            (let s2 = upd_thread y (\<lambda>th. th\<lparr>left := left (threads s1 t)\<rparr>) s1
                             in upd_thread y (\<lambda>th. th\<lparr>right := Some t\<rparr>) s2));
                    p1 = (if Some y = left (threads s1 t) then LeftOf y else RightOf y);
                    s4 = upd_thread t (\<lambda>th. th\<lparr>left := tl\<rparr>) s3;
                    s5 = upd_thread t (\<lambda>th. th\<lparr>right := tr\<rparr>) s4;
                    index_tmp = heap_index (threads s5 t);
                    s6 = upd_thread t (\<lambda>th. th\<lparr>heap_index := heap_index (threads s5 y)\<rparr>) s5;
                    s7 = upd_thread y (\<lambda>th. th\<lparr>heap_index := index_tmp\<rparr>) s6
                in heap_sift s7 p1 t)
             else Some s))"

definition heap_delete :: "runtime \<Rightarrow> tid \<Rightarrow> abort + runtime" where
  "heap_delete s thread =
     (case heap_delete_bits (sleepq_size s) 0 of
        None \<Rightarrow> Inl Hang
      | Some nbits \<Rightarrow>
         (case heap_delete_path (sleepq_size s) (nbits - 2) s Root of
            Inl e \<Rightarrow> Inl e
          | Inr p \<Rightarrow>
             (let t = deref s p;
                  s1 = assign p None s;
                  s2 = s1\<lparr>sleepq_size := sleepq_size s1 - 1\<rparr>
              in if t \<noteq> Some thread then
                   (case t of
                      None \<Rightarrow> Inl NullDeref
                    | Some t1 \<Rightarrow>
                       (let s3 = upd_thread t1 (\<lambda>th. th\<lparr>heap_index := heap_index (threads s2 thread)\<rparr>) s2
                        in case heap_insert s3 t1 of
                             Inl e \<Rightarrow> Inl e
                           | Inr (s4, p1) \<Rightarrow>
                              (case deref s4 p1 of
                                 None \<Rightarrow> Inl NullDeref
                               | Some t2 \<Rightarrow>
                                  (let s5 = upd_thread t2 (\<lambda>th. th\<lparr>left := left (threads s4 thread)\<rparr>) s4;
                                       s6 = upd_thread t2 (\<lambda>th. th\<lparr>right := right (threads s5 thread)\<rparr>) s5
                                   in case heap_sift s6 p1 t2 of
                                        None \<Rightarrow> Inl Hang
                                      | Some s7 \<Rightarrow>
                                          Inr (upd_thread thread (\<lambda>th. th\<lparr>left := None, right := None\<rparr>) s7)))))
                 else Inr (upd_thread thread (\<lambda>th. th\<lparr>left := None, right := None\<rparr>) s2))))"

definition st_add_sleep_q :: "runtime \<Rightarrow> tid \<Rightarrow> st_utime_t \<Rightarrow> abort + runtime" where
  "st_add_sleep_q s thread timeout =
     (let s1 = upd_thread thread (\<lambda>th. th\<lparr>due := last_clock s + timeout\<rparr>) s;
          s2 = upd_thread thread (\<lambda>th. th\<lparr>flags := flags th OR ST_FL_ON_SLEEPQ\<rparr>) s1;
          s3 = s2\<lparr>sleepq_size := sleepq_size s2 + 1\<rparr>;
          s4 = upd_thread thread (\<lambda>th. th\<lparr>heap_index := sleepq_size s3\<rparr>) s3
      in case heap_insert s4 thread of
           Inl e \<Rightarrow> Inl e
         | Inr (s5, p) \<Rightarrow> Inr s5)"

definition st_del_sleep_q :: "runtime \<Rightarrow> tid \<Rightarrow> abort + runtime" where
  "st_del_sleep_q s thread =
     (case heap_delete s thread of
        Inl e \<Rightarrow> Inl e
      | Inr s1 \<Rightarrow> Inr (upd_thread thread (\<lambda>th. th\<lparr>flags := flags th AND NOT ST_FL_ON_SLEEPQ\<rparr>) s1))"



section \<open>Switching to the scheduler\<close>

text \<open>
  \<^verbatim>\<open>_ST_SWITCH_CONTEXT(me)\<close> saves the context of the calling fiber and enters the scheduler;
  the other fibers and the idle fiber run and change the state, and the call goes on when
  the scheduler resumes the fiber.  A \<open>sched\<close> stands for all of that: \<open>sched s\<close> is the state
  in which the fiber that switched out in state \<open>s\<close> is resumed, \<open>None\<close> when it never is.
  Every call that can suspend takes the \<open>sched\<close> it runs under.
\<close>

type_synonym sched = "runtime \<Rightarrow> runtime option"

definition switch_context :: "sched \<Rightarrow> runtime \<Rightarrow> abort + runtime" where
  "switch_context sched s = (case sched s of None \<Rightarrow> Inl NotResumed | Some s' \<Rightarrow> Inr s')"

definition upd_cond :: "nat \<Rightarrow> (st_cond \<Rightarrow> st_cond) \<Rightarrow> runtime \<Rightarrow> runtime" where
  "upd_cond c f s = s\<lparr>conds := (conds s)(c := f (conds s c))\<rparr>"

definition upd_mutex :: "nat \<Rightarrow> (st_mutex \<Rightarrow> st_mutex) \<Rightarrow> runtime \<Rightarrow> runtime" where
  "upd_mutex m f s = s\<lparr>mutexes := (mutexes s)(m := f (mutexes s m))\<rparr>"

section \<open>Sleeping, condition variables and mutexes (sync.c)\<close>

text \<open>
  For a function that suspends, the statements after \<^verbatim>\<open>_ST_SWITCH_CONTEXT(me)\<close> are a
  definition of their own, named with the suffix \<open>_resumed\<close>: they run in the state the fiber is
  resumed in, with the local \<^verbatim>\<open>me\<close> set before the switch.
\<close>

definition st_usleep_resumed :: "runtime \<Rightarrow> tid \<Rightarrow> runtime \<times> int" where
  "st_usleep_resumed s me =
     (if (flags (threads s me) AND ST_FL_INTERRUPT) \<noteq> 0
      then ((upd_thread me (\<lambda>th. th\<lparr>flags := flags th AND NOT ST_FL_INTERRUPT\<rparr>) s)
              \<lparr>errno := EINTR\<rparr>, - 1)
      else (s, 0))"

definition st_usleep :: "sched \<Rightarrow> runtime \<Rightarrow> st_utime_t \<Rightarrow> abort + (runtime \<times> int)" where
  "st_usleep sched s usecs =
     (let me = this_thread s in
      if (flags (threads s me) AND ST_FL_INTERRUPT) \<noteq> 0 then Inr (s\<lparr>errno := EINTR\<rparr>, - 1)
      else
        (case (if usecs \<noteq> ST_UTIME_NO_TIMEOUT
               then st_add_sleep_q (upd_thread me (\<lambda>th. th\<lparr>state := ST_ST_SLEEPING\<rparr>) s) me usecs
               else Inr (upd_thread me (\<lambda>th. th\<lparr>state := ST_ST_SUSPENDED\<rparr>) s)) of
           Inl e \<Rightarrow> Inl e
         | Inr s1 \<Rightarrow>
            (case switch_context sched s1 of
               Inl e \<Rightarrow> Inl e
             | Inr s2 \<Rightarrow> Inr (st_usleep_resumed s2 me))))"

definition st_sleep :: "sched \<Rightarrow> runtime \<Rightarrow> int \<Rightarrow> abort + (runtime \<times> int)" where
  "st_sleep sched s secs =
     st_usleep sched s (if secs \<ge> 0 then word_of_int secs * 1000000 else ST_UTIME_NO_TIMEOUT)"

text \<open>
  \<^verbatim>\<open>st_cond_timedwait(cvar, timeout)\<close>.  After the switch \<^verbatim>\<open>ST_REMOVE_LINK(&me->wait_links)\<close>
  takes the fiber out of the wait queue of \<open>cvar\<close>, where it was appended; then the two tests
  of the flags run one after the other, each setting \<^verbatim>\<open>errno\<close> and \<^verbatim>\<open>rv\<close>.
\<close>

definition st_cond_timedwait_resumed :: "runtime \<Rightarrow> tid \<Rightarrow> nat \<Rightarrow> runtime \<times> int" where
  "st_cond_timedwait_resumed s me cvar =
     (let s1 = upd_cond cvar (\<lambda>c. c\<lparr>wait_q := remove1 me (wait_q c)\<rparr>) s;
          rv0 = 0;
          (s2, rv1) =
            (if (flags (threads s1 me) AND ST_FL_INTERRUPT) \<noteq> 0
             then ((upd_thread me (\<lambda>th. th\<lparr>flags := flags th AND NOT ST_FL_INTERRUPT\<rparr>) s1)
                     \<lparr>errno := EINTR\<rparr>, - 1)
             else (s1, rv0))
      in if (flags (threads s2 me) AND ST_FL_TIMEDOUT) \<noteq> 0
         then (s2\<lparr>errno := ETIME\<rparr>, - 1)
         else (s2, rv1))"

definition st_cond_timedwait ::
  "sched \<Rightarrow> runtime \<Rightarrow> nat \<Rightarrow> st_utime_t \<Rightarrow> abort + (runtime \<times> int)" where
  "st_cond_timedwait sched s cvar timeout =
     (let me = this_thread s in
      if (flags (threads s me) AND ST_FL_INTERRUPT) \<noteq> 0 then Inr (s\<lparr>errno := EINTR\<rparr>, - 1)
      else
        (let s1 = upd_thread me (\<lambda>th. th\<lparr>state := ST_ST_COND_WAIT\<rparr>) s;
             s2 = upd_cond cvar (\<lambda>c. c\<lparr>wait_q := wait_q c @ [me]\<rparr>) s1
         in case (if timeout \<noteq> ST_UTIME_NO_TIMEOUT then st_add_sleep_q s2 me timeout else Inr s2) of
              Inl e \<Rightarrow> Inl e
            | Inr s3 \<Rightarrow>
               (case switch_context sched s3 of
                  Inl e \<Rightarrow> Inl e
                | Inr s4 \<Rightarrow> Inr (st_cond_timedwait_resumed s4 me cvar))))"

definition st_cond_wait :: "sched \<Rightarrow> runtime \<Rightarrow> nat \<Rightarrow> abort + (runtime \<times> int)" where
  "st_cond_wait sched s cvar = st_cond_timedwait sched s cvar ST_UTIME_NO_TIMEOUT"

text \<open>
  The static \<^verbatim>\<open>_st_cond_signal(cvar, broadcast)\<close>, named \<open>u_st_cond_signal\<close> beside the public
  \<^verbatim>\<open>st_cond_signal\<close>.  \<open>cond_signal_loop\<close> is its loop over the wait queue, from the link \<^verbatim>\<open>q\<close> at
  the head of the list given on.  The test of the state guards the removal from the sleep
  heap only; every waiter the loop visits is marked runnable and appended to the run queue.
\<close>

fun cond_signal_loop :: "runtime \<Rightarrow> tid list \<Rightarrow> int \<Rightarrow> abort + runtime" where
  "cond_signal_loop s [] broadcast = Inr s"
| "cond_signal_loop s (thread # q) broadcast =
     (case (if state (threads s thread) = ST_ST_COND_WAIT then st_del_sleep_q s thread else Inr s) of
        Inl e \<Rightarrow> Inl e
      | Inr s1 \<Rightarrow>
         (let s2 = upd_thread thread (\<lambda>th. th\<lparr>state := ST_ST_RUNNABLE\<rparr>) s1;
              s3 = s2\<lparr>run_q := run_q s2 @ [thread]\<rparr>
          in if broadcast = 0 then Inr s3 else cond_signal_loop s3 q broadcast))"

definition u_st_cond_signal :: "runtime \<Rightarrow> nat \<Rightarrow> int \<Rightarrow> abort + (runtime \<times> int)" where
  "u_st_cond_signal s cvar broadcast =
     (case cond_signal_loop s (wait_q (conds s cvar)) broadcast of
        Inl e \<Rightarrow> Inl e
      | Inr s1 \<Rightarrow> Inr (s1, 0))"

definition st_cond_signal :: "runtime \<Rightarrow> nat \<Rightarrow> abort + (runtime \<times> int)" where
  "st_cond_signal s cvar = u_st_cond_signal s cvar 0"

definition st_cond_broadcast :: "runtime \<Rightarrow> nat \<Rightarrow> abort + (runtime \<times> int)" where
  "st_cond_broadcast s cvar = u_st_cond_signal s cvar 1"

definition st_mutex_lock_resumed :: "runtime \<Rightarrow> tid \<Rightarrow> nat \<Rightarrow> runtime \<times> int" where
  "st_mutex_lock_resumed s me lock =
     (let s1 = upd_mutex lock (\<lambda>m. m\<lparr>lock_wait_q := remove1 me (lock_wait_q m)\<rparr>) s
      in if (flags (threads s1 me) AND ST_FL_INTERRUPT) \<noteq> 0 \<and> owner (mutexes s1 lock) \<noteq> Some me
         then ((upd_thread me (\<lambda>th. th\<lparr>flags := flags th AND NOT ST_FL_INTERRUPT\<rparr>) s1)
                 \<lparr>errno := EINTR\<rparr>, - 1)
         else (s1, 0))"

definition st_mutex_lock :: "sched \<Rightarrow> runtime \<Rightarrow> nat \<Rightarrow> abort + (runtime \<times> int)" where
  "st_mutex_lock sched s lock =
     (let me = this_thread s in
      if (flags (threads s me) AND ST_FL_INTERRUPT) \<noteq> 0 then Inr (s\<lparr>errno := EINTR\<rparr>, - 1)
      else if owner (mutexes s lock) = None
      then Inr (upd_mutex lock (\<lambda>m. m\<lparr>owner := Some me\<rparr>) s, 0)
      else if owner (mutexes s lock) = Some me then Inr (s\<lparr>errno := EDEADLK\<rparr>, - 1)
      else
        (let s1 = upd_thread me (\<lambda>th. th\<lparr>state := ST_ST_LOCK_WAIT\<rparr>) s;
             s2 = upd_mutex lock (\<lambda>m. m\<lparr>lock_wait_q := lock_wait_q m @ [me]\<rparr>) s1
         in case switch_context sched s2 of
              Inl e \<Rightarrow> Inl e
            | Inr s3 \<Rightarrow> Inr (st_mutex_lock_resumed s3 me lock)))"

text \<open>
  \<^verbatim>\<open>st_mutex_unlock(lock)\<close>.  \<open>mutex_unlock_scan\<close> is its loop over the wait queue, from the
  link \<^verbatim>\<open>q\<close> at the head of the list given on, with the assignment \<^verbatim>\<open>lock->owner = NULL\<close> that
  follows the loop.
\<close>

fun mutex_unlock_scan :: "runtime \<Rightarrow> nat \<Rightarrow> tid list \<Rightarrow> runtime" where
  "mutex_unlock_scan s lock [] = upd_mutex lock (\<lambda>m. m\<lparr>owner := None\<rparr>) s"
| "mutex_unlock_scan s lock (thread # q) =
     (if state (threads s thread) = ST_ST_LOCK_WAIT then
        (let s1 = upd_mutex lock (\<lambda>m. m\<lparr>owner := Some thread\<rparr>) s;
             s2 = upd_thread thread (\<lambda>th. th\<lparr>state := ST_ST_RUNNABLE\<rparr>) s1
         in s2\<lparr>run_q := run_q s2 @ [thread]\<rparr>)
      else mutex_unlock_scan s lock q)"

definition st_mutex_unlock :: "runtime \<Rightarrow> nat \<Rightarrow> runtime \<times> int" where
  "st_mutex_unlock s lock =
     (if owner (mutexes s lock) \<noteq> Some (this_thread s) then (s\<lparr>errno := EPERM\<rparr>, - 1)
      else (mutex_unlock_scan s lock (lock_wait_q (mutexes s lock)), 0))"

definition st_mutex_trylock :: "runtime \<Rightarrow> nat \<Rightarrow> runtime \<times> int" where
  "st_mutex_trylock s lock =
     (if owner (mutexes s lock) \<noteq> None then (s\<lparr>errno := EBUSY\<rparr>, - 1)
      else (upd_mutex lock (\<lambda>m. m\<lparr>owner := Some (this_thread s)\<rparr>) s, 0))"

section \<open>Polling (sched.c, io.c)\<close>

text \<open>
  \<^verbatim>\<open>st_poll(pds, npds, timeout)\<close>.  The \<^verbatim>\<open>_st_pollq_t\<close> of the call lives in the frame of the
  caller, \<open>pollqs s me\<close>; the caller's array is reached through it, so what the event system
  writes to the array while the fiber is switched out is read from \<open>pq_pds\<close> after the switch.
  The count \<^verbatim>\<open>n\<close> is computed as the code computes it, from the field \<^verbatim>\<open>events\<close>; the last
  statement is \<^verbatim>\<open>return 0\<close>.
\<close>

definition st_poll_resumed :: "runtime \<Rightarrow> tid \<Rightarrow> runtime \<times> int" where
  "st_poll_resumed s me =
     (let n0 = 0;
          (s1, n) =
            (if on_ioq (pollqs s me) \<noteq> 0
             then (st_epoll_pollset_del (s\<lparr>io_q := remove1 me (io_q s)\<rparr>) (pq_pds (pollqs s me)), n0)
             else (s, n0 + int (length (filter (\<lambda>pd. events pd \<noteq> 0) (pq_pds (pollqs s me))))))
      in if (flags (threads s1 me) AND ST_FL_INTERRUPT) \<noteq> 0
         then ((upd_thread me (\<lambda>th. th\<lparr>flags := flags th AND NOT ST_FL_INTERRUPT\<rparr>) s1)
                 \<lparr>errno := EINTR\<rparr>, - 1)
         else (s1, 0))"

definition st_poll :: "sched \<Rightarrow> runtime \<Rightarrow> pollfd list \<Rightarrow> st_utime_t \<Rightarrow> abort + (runtime \<times> int)" where
  "st_poll sched s ps timeout =
     (let me = this_thread s in
      if (flags (threads s me) AND ST_FL_INTERRUPT) \<noteq> 0
      then Inr ((upd_thread me (\<lambda>th. th\<lparr>flags := flags th AND NOT ST_FL_INTERRUPT\<rparr>) s)
                  \<lparr>errno := EINTR\<rparr>, - 1)
      else
        (case st_epoll_pollset_add s ps of
           Inl e \<Rightarrow> Inl e
         | Inr (s1, r) \<Rightarrow>
            if r < 0 then Inr (s1, - 1)
            else
              (let s2 = s1\<lparr>pollqs := (pollqs s1)(me := \<lparr>pq_thread = me, pq_pds = ps, on_ioq = 1\<rparr>)\<rparr>;
                   s3 = s2\<lparr>io_q := io_q s2 @ [me]\<rparr>
               in case (if timeout \<noteq> ST_UTIME_NO_TIMEOUT then st_add_sleep_q s3 me timeout else Inr s3) of
                    Inl e \<Rightarrow> Inl e
                  | Inr s4 \<Rightarrow>
                     (case switch_context sched (upd_thread me (\<lambda>th. th\<lparr>state := ST_ST_IO_WAIT\<rparr>) s4) of
                        Inl e \<Rightarrow> Inl e
                      | Inr s5 \<Rightarrow> Inr (st_poll_resumed s5 me)))))"

text \<open>
  \<^verbatim>\<open>st_netfd_poll(fd, how, timeout)\<close>, with \<open>nfd\<close> for \<^verbatim>\<open>fd->osfd\<close>.  The local \<^verbatim>\<open>pd\<close> is the one
  entry of the array given to \<^verbatim>\<open>st_poll\<close>; \<^verbatim>\<open>pd.revents\<close> is read back from the array after the
  call (from \<open>pd\<close> as it was passed when \<^verbatim>\<open>st_poll\<close> returned before it linked the array).
\<close>

definition st_netfd_poll :: "sched \<Rightarrow> runtime \<Rightarrow> int \<Rightarrow> int \<Rightarrow> st_utime_t \<Rightarrow> abort + (runtime \<times> int)" where
  "st_netfd_poll sched s nfd how timeout =
     (let me = this_thread s;
          pd = \<lparr>fd = nfd, events = word_of_int how, revents = 0\<rparr>
      in case st_poll sched s [pd] timeout of
           Inl e \<Rightarrow> Inl e
         | Inr (s1, n) \<Rightarrow>
            if n < 0 then Inr (s1, - 1)
            else if n = 0 then Inr (s1\<lparr>errno := ETIME\<rparr>, - 1)
            else if (revents (case pq_pds (pollqs s1 me) of [] \<Rightarrow> pd | pd1 # _ \<Rightarrow> pd1) AND POLLNVAL) \<noteq> 0
            then Inr (s1\<lparr>errno := EBADF\<rparr>, - 1)
            else Inr (s1, 0))"

section \<open>The stack arena (stk.c)\<close>

text \<open>
  \<^verbatim>\<open>_st_new_stk_segment(size)\<close> maps \<open>size\<close> bytes and makes the first and the last
  \<^verbatim>\<open>REDZONE\<close> bytes of the mapping inaccessible; \<^verbatim>\<open>REDZONE\<close> is the page size.  The results of
  the two \<^verbatim>\<open>mprotect\<close> calls are not read.
\<close>

definition st_new_stk_segment :: "runtime \<Rightarrow> int \<Rightarrow> int option" where
  "st_new_stk_segment s sz = mmap_addr s sz"

text \<open>
  \<^verbatim>\<open>_st_stack_new(stack_size)\<close>: the first free stack that is large enough, taken off the free
  list, or a new one.  The result is the state and the \<^verbatim>\<open>_st_stack_t\<close>, \<open>None\<close> for NULL.
\<close>

definition st_stack_new :: "runtime \<Rightarrow> int \<Rightarrow> runtime \<times> st_stack option" where
  "st_stack_new s stack_size =
     (case find (\<lambda>ts. stk_size ts \<ge> stack_size) (free_stacks s) of
        Some ts \<Rightarrow>
          (s\<lparr>free_stacks := remove1 ts (free_stacks s), num_free_stacks := num_free_stacks s - 1\<rparr>,
           Some ts)
      | None \<Rightarrow>
          if \<not> calloc_ok s then (s, None)
          else
            (let extra = (if randomize_stacks s \<noteq> 0 then pagesize s else 0);
                 vsz = wrap_int (stack_size + pagesize s * 2 + extra)
             in case st_new_stk_segment s vsz of
                  None \<Rightarrow> (s, None)
                | Some va \<Rightarrow>
                   (let ts = \<lparr>vaddr = va, vaddr_size = vsz, stk_size = stack_size,
                              stk_bottom = va + pagesize s, stk_top = va + pagesize s + stack_size,
                              sp = 0\<rparr>
                    in if extra \<noteq> 0
                       then (let offset = (random_value s smod extra) AND NOT 15
                             in (s, Some (ts\<lparr>stk_bottom := stk_bottom ts + offset,
                                               stk_top := stk_top ts + offset\<rparr>)))
                       else (s, Some ts))))"

text \<open>
  The bytes from \<open>a\<close> up to \<open>b\<close> can be written when they lie between the two inaccessible
  zones of the mapping of the stack.
\<close>

definition stack_writable :: "runtime \<Rightarrow> st_stack \<Rightarrow> int \<Rightarrow> int \<Rightarrow> bool" where
  "stack_writable s ts a b \<longleftrightarrow>
     vaddr ts + pagesize s \<le> a \<and> b \<le> vaddr ts + vaddr_size ts - pagesize s"

section \<open>Creating, joining and interrupting threads (sched.c)\<close>

abbreviation (input) ST_DEFAULT_STACK_SIZE :: int where "ST_DEFAULT_STACK_SIZE \<equiv> 128 * 1024"

text \<open>
  \<^verbatim>\<open>st_thread_create(start, arg, joinable, stk_size)\<close>, with \<open>size_arg\<close> for the parameter
  \<^verbatim>\<open>stk_size\<close>.  The size is rounded up to a multiple
  of the page size in \<^verbatim>\<open>int\<close> arithmetic; the division is the one of C, and it traps by a page
  size of 0 (before \<^verbatim>\<open>st_init\<close>) and for the least \<^verbatim>\<open>int\<close> divided by \<open>- 1\<close>.  The control block
  and the \<open>ST_KEYS_MAX\<close> slots are placed at the bottom of the stack, \<open>thread_bytes\<close> bytes
  together, so the address of the bottom is the thread; the two \<^verbatim>\<open>memset\<close> calls zero them, and
  fault when these bytes are not inside the accessible part of the mapping.  The alignment of
  the local \<^verbatim>\<open>sp\<close> is not used after it is computed, and \<^verbatim>\<open>_ST_INIT_CONTEXT\<close> writes the saved
  context only.  The parameter \<^verbatim>\<open>joinable\<close> is not read by the body.
\<close>

definition st_thread_create ::
  "runtime \<Rightarrow> ptr \<Rightarrow> ptr \<Rightarrow> int \<Rightarrow> int \<Rightarrow> abort + (runtime \<times> tid option)" where
  "st_thread_create s start_fn arg_p joinable size_arg =
     (let sz = (if size_arg = 0 then ST_DEFAULT_STACK_SIZE else size_arg);
          num = wrap_int (sz + pagesize s - 1)
      in if pagesize s = 0 \<or> (pagesize s = - 1 \<and> num = - 2147483648) then Inl DivByZero
         else
           (let sz1 = wrap_int ((num sdiv pagesize s) * pagesize s);
                (s0, stk) = st_stack_new s sz1
            in case stk of
                 None \<Rightarrow> Inr (s0, None)
               | Some ts \<Rightarrow>
                  (let thread = nat (stk_bottom ts);
                       ts1 = ts\<lparr>sp := stk_bottom ts + thread_bytes s0\<rparr>
                   in if \<not> stack_writable s0 ts1 (stk_bottom ts1) (stk_bottom ts1 + thread_bytes s0)
                      then Inl MemFault
                      else
                        (let s1 = upd_thread thread (\<lambda>th. zero_thread) s0;
                             s2 = upd_thread thread
                                    (\<lambda>th. th\<lparr>stack := Some ts1, start := start_fn, arg := arg_p\<rparr>) s1;
                             s3 = upd_thread thread (\<lambda>th. th\<lparr>state := ST_ST_RUNNABLE\<rparr>) s2;
                             s4 = s3\<lparr>active_count := active_count s3 + 1\<rparr>;
                             s5 = s4\<lparr>run_q := run_q s4 @ [thread]\<rparr>
                         in Inr (s5, Some thread)))))"

text \<open>
  \<^verbatim>\<open>st_thread_join(thread, retvalp)\<close>.  \<open>thread_join_wait\<close> is its loop
  \<^verbatim>\<open>while (thread->state != _ST_ST_ZOMBIE)\<close>, with the result \<open>- 1\<close> for the \<^verbatim>\<open>return -1\<close> inside;
  it does not end when the fiber is resumed again and again and the thread never exits.
  \<open>want_retval\<close> says that \<^verbatim>\<open>retvalp\<close> is not NULL; the value stored to \<^verbatim>\<open>*retvalp\<close> is the third
  component of the result.  \<^verbatim>\<open>EDEADLOCK\<close> is \<^verbatim>\<open>EDEADLK\<close> on Linux.  The last two statements are
  \<^verbatim>\<open>_ST_ADD_RUNQ(thread)\<close> and then \<^verbatim>\<open>_ST_DEL_ZOMBIEQ(thread)\<close>, both on the anchor \<^verbatim>\<open>links\<close>:
  the first links the anchor at the end of the run queue, so the \<^verbatim>\<open>ST_REMOVE_LINK\<close> of the
  second unlinks it there, and the neighbours on the zombie queue keep pointing to the thread.
\<close>

partial_function (option) thread_join_wait ::
  "sched \<Rightarrow> runtime \<Rightarrow> tid \<Rightarrow> nat \<Rightarrow> (abort + (runtime \<times> int)) option" where
  "thread_join_wait sched s thread tc =
     (if state (threads s thread) \<noteq> ST_ST_ZOMBIE then
        (case st_cond_wait sched s tc of
           Inl e \<Rightarrow> Some (Inl e)
         | Inr (s1, r) \<Rightarrow>
            if r \<noteq> 0 then Some (Inr (s1, - 1)) else thread_join_wait sched s1 thread tc)
      else Some (Inr (s, 0)))"

definition st_thread_join ::
  "sched \<Rightarrow> runtime \<Rightarrow> tid \<Rightarrow> bool \<Rightarrow> abort + (runtime \<times> int \<times> ptr option)" where
  "st_thread_join sched s thread want_retval =
     (case term_cv (threads s thread) of
        None \<Rightarrow> Inr (s\<lparr>errno := EINVAL\<rparr>, - 1, None)
      | Some tc \<Rightarrow>
          if this_thread s = thread then Inr (s\<lparr>errno := EDEADLK\<rparr>, - 1, None)
          else if wait_q (conds s tc) \<noteq> [] then Inr (s\<lparr>errno := EINVAL\<rparr>, - 1, None)
          else
            (case thread_join_wait sched s thread tc of
               None \<Rightarrow> Inl Hang
             | Some (Inl e) \<Rightarrow> Inl e
             | Some (Inr (s1, r)) \<Rightarrow>
                 if r \<noteq> 0 then Inr (s1, - 1, None)
                 else
                   (let out = (if want_retval then Some (retval (threads s1 thread)) else None);
                        s2 = upd_thread thread (\<lambda>th. th\<lparr>state := ST_ST_RUNNABLE\<rparr>) s1;
                        s3 = s2\<lparr>run_q := run_q s2 @ [thread]\<rparr>;
                        s4 = s3\<lparr>run_q := butlast (run_q s3)\<rparr>
                    in Inr (s4, 0, out))))"

text \<open>\<^verbatim>\<open>st_thread_interrupt(thread)\<close>.\<close>

definition st_thread_interrupt :: "runtime \<Rightarrow> tid \<Rightarrow> abort + runtime" where
  "st_thread_interrupt s thread =
     (if state (threads s thread) = ST_ST_ZOMBIE then Inr s
      else
        (let s1 = upd_thread thread (\<lambda>th. th\<lparr>flags := flags th OR ST_FL_INTERRUPT\<rparr>) s
         in if state (threads s1 thread) = ST_ST_RUNNABLE \<or> state (threads s1 thread) = ST_ST_RUNNING
            then Inr s1
            else
              (case (if (flags (threads s1 thread) AND ST_FL_ON_SLEEPQ) \<noteq> 0
                     then st_del_sleep_q s1 thread else Inr s1) of
                 Inl e \<Rightarrow> Inl e
               | Inr s2 \<Rightarrow>
                   (let s3 = upd_thread thread (\<lambda>th. th\<lparr>state := ST_ST_RUNNABLE\<rparr>) s2
                    in Inr (s3\<lparr>run_q := run_q s3 @ [thread]\<rparr>)))))"

section \<open>Thread-local storage (key.c)\<close>

text \<open>\<^verbatim>\<open>st_key_create\<close>: the result is the state, the return value and the key stored to \<^verbatim>\<open>*keyp\<close>.\<close>

definition st_key_create :: "runtime \<Rightarrow> ptr \<Rightarrow> runtime \<times> int \<times> int option" where
  "st_key_create s destructor =
     (if key_max s \<ge> ST_KEYS_MAX then (s\<lparr>errno := EAGAIN\<rparr>, - 1, None)
      else let k = key_max s
           in (s\<lparr>key_max := k + 1, destructors := (destructors s)(k := destructor)\<rparr>, 0, Some k))"

definition st_key_getlimit :: int where
  "st_key_getlimit = ST_KEYS_MAX"

definition st_thread_setspecific :: "runtime \<Rightarrow> int \<Rightarrow> ptr \<Rightarrow> runtime \<times> int" where
  "st_thread_setspecific s k v =
     (let me = this_thread s in
      if k < 0 \<or> k \<ge> ST_KEYS_MAX then (s\<lparr>errno := EINVAL\<rparr>, - 1)
      else if v \<noteq> private_data (threads s me) k then
        (let old = private_data (threads s me) k;
             s1 = (if old \<noteq> 0 \<and> destructors s k \<noteq> 0
                   then s\<lparr>destructor_calls := destructor_calls s @ [(destructors s k, old)]\<rparr>
                   else s)
         in (upd_thread me (\<lambda>th. th\<lparr>private_data := (private_data th)(k := v)\<rparr>) s1, 0))
      else (s, 0))"

definition st_thread_getspecific :: "runtime \<Rightarrow> int \<Rightarrow> ptr" where
  "st_thread_getspecific s k =
     (if k < 0 \<or> k \<ge> key_max s then 0
      else private_data (threads s (this_thread s)) k)"

section \<open>Example states\<close>

text \<open>
  The runtime as \<^verbatim>\<open>st_init\<close> leaves it: the primordial thread 1 is running, thread 2 is the idle
  thread, off the run queue; nothing is queued, no key is created, no descriptor is registered.
  The kernel accepts every \<^verbatim>\<open>epoll_ctl\<close> call and maps every positive length at the address
  \<open>1048576\<close>; no stack is free, and a control block with its slots takes 1216 bytes.
\<close>

definition init_runtime :: runtime where
  "init_runtime = \<lparr>threads = (\<lambda>_. zero_thread)
       (1 := zero_thread\<lparr>state := ST_ST_RUNNING, flags := ST_FL_PRIMORDIAL\<rparr>,
        2 := zero_thread\<lparr>state := ST_ST_RUNNABLE, flags := ST_FL_IDLE_THREAD\<rparr>),
     conds = (\<lambda>_. \<lparr>wait_q = []\<rparr>),
     mutexes = (\<lambda>_. \<lparr>owner = None, lock_wait_q = []\<rparr>),
     pollqs = (\<lambda>t. \<lparr>pq_thread = t, pq_pds = [], on_ioq = 0\<rparr>),
     errno = 0, this_thread = 1, active_count = 1, idle_thread = Some 2, last_clock = 0,
     curr_time = 0, last_tset = 0, run_q = [], io_q = [], zombie_q = [], pagesize = 4096,
     sleep_q = None, sleepq_size = 0,
     key_max = 0, destructors = (\<lambda>_. 0),
     fd_data = (\<lambda>_. \<lparr>rd_ref_cnt = 0, wr_ref_cnt = 0, ex_ref_cnt = 0, fd_revents = 0\<rparr>),
     fd_data_size = 4096, evtlist_size = 4096, evtlist_cnt = 0, epfd = 3,
     destructor_calls = [], ctl_log = [], kernel_ctl = (\<lambda>_ _. 0), realloc_ok = (\<lambda>_. True),
     free_stacks = [], num_free_stacks = 0, randomize_stacks = 0, calloc_ok = True,
     mmap_addr = (\<lambda>n. if 0 < n then Some 1048576 else None), random_value = 0,
     thread_bytes = 1216\<rparr>"

text \<open>
  Descriptor 5 with one reader registered: \<open>latched_runtime\<close> in the middle of a dispatch pass
  that latched \<^verbatim>\<open>EPOLLIN\<close> for it, \<open>reader_runtime\<close> outside of one.
\<close>

definition reader_runtime :: runtime where
  "reader_runtime = init_runtime\<lparr>fd_data := (fd_data init_runtime)
     (5 := \<lparr>rd_ref_cnt = 1, wr_ref_cnt = 0, ex_ref_cnt = 0, fd_revents = 0\<rparr>), evtlist_cnt := 1\<rparr>"

definition latched_runtime :: runtime where
  "latched_runtime = init_runtime\<lparr>fd_data := (fd_data init_runtime)
     (5 := \<lparr>rd_ref_cnt = 1, wr_ref_cnt = 0, ex_ref_cnt = 0, fd_revents = EPOLLIN\<rparr>), evtlist_cnt := 1\<rparr>"

text \<open>
  Sleepers and a waiter.  In \<open>one_sleeper_runtime\<close> thread 10 is alone on the sleep heap.  In
  \<open>cond_waiter_runtime\<close> thread 20 waits on the condition variable 7 without a timeout and the
  sleep heap is empty.  In \<open>two_sleepers_runtime\<close> thread 20 waits in the same way while threads
  10 and 11 are on the sleep heap, 10 at the root and 11 its left child.
\<close>

definition sleeper :: "st_utime_t \<Rightarrow> int \<Rightarrow> st_thread" where
  "sleeper d i = zero_thread\<lparr>state := ST_ST_SLEEPING, flags := ST_FL_ON_SLEEPQ, due := d, heap_index := i\<rparr>"

definition one_sleeper_runtime :: runtime where
  "one_sleeper_runtime = init_runtime\<lparr>threads := (threads init_runtime)(10 := sleeper 100 1),
     sleep_q := Some 10, sleepq_size := 1\<rparr>"

definition cond_waiter_runtime :: runtime where
  "cond_waiter_runtime = init_runtime\<lparr>
     threads := (threads init_runtime)(20 := zero_thread\<lparr>state := ST_ST_COND_WAIT\<rparr>),
     conds := (conds init_runtime)(7 := \<lparr>wait_q = [20]\<rparr>)\<rparr>"

definition two_sleepers_runtime :: runtime where
  "two_sleepers_runtime = init_runtime\<lparr>
     threads := (threads init_runtime)
       (10 := (sleeper 100 1)\<lparr>left := Some 11\<rparr>, 11 := sleeper 200 2,
        20 := zero_thread\<lparr>state := ST_ST_COND_WAIT\<rparr>),
     conds := (conds init_runtime)(7 := \<lparr>wait_q = [20]\<rparr>),
     sleep_q := Some 10, sleepq_size := 2\<rparr>"

text \<open>
  \<open>ready_poll_runtime\<close>: thread 1 polls descriptor 5 for \<^verbatim>\<open>POLLIN\<close>, the dispatch pass has
  written \<^verbatim>\<open>POLLIN\<close> to \<^verbatim>\<open>revents\<close>, taken the \<^verbatim>\<open>_st_pollq_t\<close> off the I/O queue, dropped the
  interest and the registration of the descriptor, and the thread runs again.
  \<open>interrupted_runtime\<close>: the running thread 1 has been interrupted (\<^verbatim>\<open>st_thread_interrupt\<close>
  on the running thread sets the flag and does nothing else).
  \<open>timed_waiter_runtime\<close>: thread 30 waits on the condition variable 7 with a timeout, as the
  statements of \<^verbatim>\<open>st_cond_timedwait\<close> before the switch are written to leave it: in state
  \<^verbatim>\<open>_ST_ST_COND_WAIT\<close>, on the wait queue, and alone on the sleep heap with the deadline 1000.
\<close>

definition ready_poll_runtime :: runtime where
  "ready_poll_runtime = init_runtime\<lparr>pollqs := (pollqs init_runtime)
     (1 := \<lparr>pq_thread = 1, pq_pds = [\<lparr>fd = 5, events = POLLIN, revents = POLLIN\<rparr>], on_ioq = 0\<rparr>),
     ctl_log := [(EPOLL_CTL_ADD, 5, EPOLLIN), (EPOLL_CTL_DEL, 5, 0)]\<rparr>"


definition interrupted_runtime :: runtime where
  "interrupted_runtime = init_runtime\<lparr>
     threads := (threads init_runtime)(1 := zero_thread\<lparr>flags := ST_FL_PRIMORDIAL OR ST_FL_INTERRUPT\<rparr>)\<rparr>"

text \<open>
  \<open>handoff_runtime\<close>: thread 1 holds the mutex 9; on its wait queue are thread 40, made
  runnable by an interrupt and not yet run, and threads 41 and 42 in \<^verbatim>\<open>_ST_ST_LOCK_WAIT\<close>.
\<close>

definition handoff_runtime :: runtime where
  "handoff_runtime = init_runtime\<lparr>
     threads := (threads init_runtime)
       (40 := zero_thread\<lparr>state := ST_ST_RUNNABLE, flags := ST_FL_INTERRUPT\<rparr>,
        41 := zero_thread\<lparr>state := ST_ST_LOCK_WAIT\<rparr>,
        42 := zero_thread\<lparr>state := ST_ST_LOCK_WAIT\<rparr>),
     mutexes := (mutexes init_runtime)(9 := \<lparr>owner = Some 1, lock_wait_q = [40, 41, 42]\<rparr>),
     run_q := [40]\<rparr>"

section \<open>Thread-local storage: the key checks of set and get differ\<close>

lemma st_key_create_fresh:
  "st_key_create s d = (s', rv, Some k) \<Longrightarrow> k = key_max s \<and> key_max s' = k + 1 \<and> rv = 0"
  by (auto simp: st_key_create_def Let_def split: if_splits)

lemma setspecific_in_range:
  assumes "0 \<le> k" "k < ST_KEYS_MAX"
  shows "snd (st_thread_setspecific s k v) = 0"
    and "private_data (threads (fst (st_thread_setspecific s k v))
           (this_thread (fst (st_thread_setspecific s k v)))) k = v"
    and "key_max (fst (st_thread_setspecific s k v)) = key_max s"
  using assms by (auto simp: st_thread_setspecific_def upd_thread_def Let_def)

text \<open>
  C10.  \<^verbatim>\<open>st_thread_setspecific\<close> checks the key against \<open>ST_KEYS_MAX\<close>,
  \<^verbatim>\<open>st_thread_getspecific\<close> against \<open>key_max\<close>.  For a key \<open>k\<close> with
  \<open>key_max \<le> k < ST_KEYS_MAX\<close> (never returned by \<^verbatim>\<open>st_key_create\<close>) the set succeeds and
  stores the value in the slot, and the get that follows returns NULL; for a created key
  (\<open>0 \<le> k < key_max\<close>) the get that follows the set returns the value stored.
\<close>

theorem tls_key_validation_asymmetric:
  assumes "0 \<le> k" and "k < ST_KEYS_MAX"
    and "st_thread_setspecific s k v = (s', rv)"
  shows "(key_max s \<le> k \<longrightarrow>
            rv = 0 \<and> private_data (threads s' (this_thread s')) k = v
            \<and> st_thread_getspecific s' k = 0)
       \<and> (k < key_max s \<longrightarrow> rv = 0 \<and> st_thread_getspecific s' k = v)"
proof -
  have s': "s' = fst (st_thread_setspecific s k v)" and rv: "rv = snd (st_thread_setspecific s k v)"
    using assms(3) by simp_all
  have km: "key_max s' = key_max s"
    unfolding s' using assms(1,2) by (rule setspecific_in_range(3))
  have stored: "private_data (threads s' (this_thread s')) k = v"
    unfolding s' using assms(1,2) by (rule setspecific_in_range(2))
  have ok: "rv = 0"
    unfolding rv using assms(1,2) by (rule setspecific_in_range(1))
  show ?thesis
    using km stored ok assms(1) by (simp add: st_thread_getspecific_def)
qed

theorem tls_key_validation_asymmetric_witness:
  "snd (st_thread_setspecific (init_runtime\<lparr>key_max := 2\<rparr>) 5 77) = 0
   \<and> private_data (threads (fst (st_thread_setspecific (init_runtime\<lparr>key_max := 2\<rparr>) 5 77)) 1) 5 = 77
   \<and> st_thread_getspecific (fst (st_thread_setspecific (init_runtime\<lparr>key_max := 2\<rparr>) 5 77)) 5 = 0
   \<and> st_thread_getspecific (fst (st_thread_setspecific (init_runtime\<lparr>key_max := 2\<rparr>) 1 77)) 1 = 77"
proof -
  have a: "this_thread (fst (st_thread_setspecific (init_runtime\<lparr>key_max := 2\<rparr>) 5 77)) = 1"
    by (simp add: st_thread_setspecific_def init_runtime_def zero_thread_def upd_thread_def)
  have b: "key_max (init_runtime\<lparr>key_max := 2\<rparr>) = 2"
    by simp
  show ?thesis
    using tls_key_validation_asymmetric [of 5 "init_runtime\<lparr>key_max := 2\<rparr>" 77
        "fst (st_thread_setspecific (init_runtime\<lparr>key_max := 2\<rparr>) 5 77)"
        "snd (st_thread_setspecific (init_runtime\<lparr>key_max := 2\<rparr>) 5 77)"]
      tls_key_validation_asymmetric [of 1 "init_runtime\<lparr>key_max := 2\<rparr>" 77
        "fst (st_thread_setspecific (init_runtime\<lparr>key_max := 2\<rparr>) 1 77)"
        "snd (st_thread_setspecific (init_runtime\<lparr>key_max := 2\<rparr>) 1 77)"]
      a b
    by simp
qed

section \<open>Removing interest skips the kernel for latched descriptors\<close>

lemma pollset_del_append:
  "st_epoll_pollset_del s (xs @ ys) = st_epoll_pollset_del (st_epoll_pollset_del s xs) ys"
  by (induction xs arbitrary: s) simp_all

lemma dec_ref_cnts_fd_data:
  "fd_data (dec_ref_cnts s pd) =
     (fd_data s)(fd pd := (fd_data s (fd pd))
        \<lparr>rd_ref_cnt := rd_ref_cnt (fd_data s (fd pd)) - (if (events pd AND POLLIN) \<noteq> 0 then 1 else 0),
         wr_ref_cnt := wr_ref_cnt (fd_data s (fd pd)) - (if (events pd AND POLLOUT) \<noteq> 0 then 1 else 0),
         ex_ref_cnt := ex_ref_cnt (fd_data s (fd pd)) - (if (events pd AND POLLPRI) \<noteq> 0 then 1 else 0)\<rparr>)"
  by (simp add: dec_ref_cnts_def upd_fd_def)

lemma dec_ref_cnts_frame:
  "ctl_log (dec_ref_cnts s pd) = ctl_log s"
  "kernel_ctl (dec_ref_cnts s pd) = kernel_ctl s"
  by (simp_all add: dec_ref_cnts_def upd_fd_def)

lemma ST_EPOLL_EVENTS_cong:
  "fd_data s osfd = fd_data s' osfd \<Longrightarrow> ST_EPOLL_EVENTS s osfd = ST_EPOLL_EVENTS s' osfd"
  by (simp add: ST_EPOLL_EVENTS_def)

lemma pollset_del_body_fd_data:
  "fd_data (pollset_del_body s pd) = fd_data (dec_ref_cnts s pd)"
  by (simp add: pollset_del_body_def Let_def epoll_ctl_def split: prod.splits)


lemma pollset_del_body_revents:
  "fd_revents (fd_data (pollset_del_body s pd) f) = fd_revents (fd_data s f)"
  by (simp add: pollset_del_body_fd_data dec_ref_cnts_fd_data)

lemma pollset_del_revents:
  "fd_revents (fd_data (st_epoll_pollset_del s ps) f) = fd_revents (fd_data s f)"
  by (induction ps arbitrary: s) (simp_all add: pollset_del_body_revents)

lemma pollset_del_body_ctl_log:
  "ctl_log (pollset_del_body s pd) = ctl_log s @
     (if ST_EPOLL_EVENTS (pollset_del_body s pd) (fd pd) \<noteq> ST_EPOLL_EVENTS s (fd pd)
         \<and> fd_revents (fd_data s (fd pd)) = 0
      then [(if ST_EPOLL_EVENTS (pollset_del_body s pd) (fd pd) \<noteq> 0
             then EPOLL_CTL_MOD else EPOLL_CTL_DEL,
             fd pd, ST_EPOLL_EVENTS (pollset_del_body s pd) (fd pd))]
      else [])"
proof -
  define s3 where "s3 = dec_ref_cnts s pd"
  have ev: "ST_EPOLL_EVENTS (pollset_del_body s pd) (fd pd) = ST_EPOLL_EVENTS s3 (fd pd)"
    by (rule ST_EPOLL_EVENTS_cong) (simp add: s3_def pollset_del_body_fd_data)
  have rv: "fd_revents (fd_data s3 (fd pd)) = fd_revents (fd_data s (fd pd))"
    by (simp add: s3_def dec_ref_cnts_fd_data)
  have log3: "ctl_log s3 = ctl_log s"
    by (simp add: s3_def dec_ref_cnts_frame)
  have "ctl_log (pollset_del_body s pd) = ctl_log s3 @
     (if ST_EPOLL_EVENTS s3 (fd pd) \<noteq> ST_EPOLL_EVENTS s (fd pd)
         \<and> fd_revents (fd_data s3 (fd pd)) = 0
      then [(if ST_EPOLL_EVENTS s3 (fd pd) \<noteq> 0 then EPOLL_CTL_MOD else EPOLL_CTL_DEL,
             fd pd, ST_EPOLL_EVENTS s3 (fd pd))]
      else [])"
    unfolding pollset_del_body_def s3_def [symmetric]
    by (simp add: Let_def epoll_ctl_def split: prod.splits)
  then show ?thesis
    by (simp only: ev rv log3)
qed

text \<open>
  C9.  In a call \<^verbatim>\<open>_st_epoll_pollset_del(pds, npds)\<close>, take the entry \<open>ps ! i\<close>, the state \<open>b\<close>
  before the loop handles it and the state \<open>a\<close> after.  Each of the three reference counts of
  its descriptor is decremented when the entry requests that interest, whatever the latched
  \<^verbatim>\<open>revents\<close>; the latched \<^verbatim>\<open>revents\<close> stay as they were at the call; when they are nonzero no
  \<^verbatim>\<open>epoll_ctl\<close> call is issued for the entry; and a call is issued exactly when the interest
  mask of the descriptor changed and its latched \<^verbatim>\<open>revents\<close> are zero: then one call, MOD with
  the new mask, or DEL when the new mask is empty.
\<close>

theorem pollset_del_skips_latched_fd:
  assumes "i < length ps"
  shows "let b = st_epoll_pollset_del s (take i ps);
             a = st_epoll_pollset_del s (take (Suc i) ps);
             pd = ps ! i
         in rd_ref_cnt (fd_data a (fd pd)) =
              rd_ref_cnt (fd_data b (fd pd)) - (if (events pd AND POLLIN) \<noteq> 0 then 1 else 0)
          \<and> wr_ref_cnt (fd_data a (fd pd)) =
              wr_ref_cnt (fd_data b (fd pd)) - (if (events pd AND POLLOUT) \<noteq> 0 then 1 else 0)
          \<and> ex_ref_cnt (fd_data a (fd pd)) =
              ex_ref_cnt (fd_data b (fd pd)) - (if (events pd AND POLLPRI) \<noteq> 0 then 1 else 0)
          \<and> fd_revents (fd_data a (fd pd)) = fd_revents (fd_data s (fd pd))
          \<and> fd_revents (fd_data b (fd pd)) = fd_revents (fd_data s (fd pd))
          \<and> (fd_revents (fd_data s (fd pd)) \<noteq> 0 \<longrightarrow> ctl_log a = ctl_log b)
          \<and> ctl_log a = ctl_log b @
              (if ST_EPOLL_EVENTS a (fd pd) \<noteq> ST_EPOLL_EVENTS b (fd pd)
                  \<and> fd_revents (fd_data s (fd pd)) = 0
               then [(if ST_EPOLL_EVENTS a (fd pd) \<noteq> 0 then EPOLL_CTL_MOD else EPOLL_CTL_DEL,
                      fd pd, ST_EPOLL_EVENTS a (fd pd))]
               else [])"
proof -
  define b where "b = st_epoll_pollset_del s (take i ps)"
  define pd where "pd = ps ! i"
  define a where "a = pollset_del_body b pd"
  have a: "st_epoll_pollset_del s (take (Suc i) ps) = a"
    using assms by (simp add: take_Suc_conv_app_nth pollset_del_append b_def a_def pd_def)
  have rb: "fd_revents (fd_data b (fd pd)) = fd_revents (fd_data s (fd pd))"
    by (simp add: b_def pollset_del_revents)
  have ra: "fd_revents (fd_data a (fd pd)) = fd_revents (fd_data s (fd pd))"
    by (simp add: a_def pollset_del_body_revents rb)
  have log: "ctl_log a = ctl_log b @
     (if ST_EPOLL_EVENTS a (fd pd) \<noteq> ST_EPOLL_EVENTS b (fd pd)
         \<and> fd_revents (fd_data s (fd pd)) = 0
      then [(if ST_EPOLL_EVENTS a (fd pd) \<noteq> 0 then EPOLL_CTL_MOD else EPOLL_CTL_DEL,
             fd pd, ST_EPOLL_EVENTS a (fd pd))]
      else [])"
    using pollset_del_body_ctl_log [of b pd] unfolding a_def [symmetric] by (simp only: rb)
  have rd: "rd_ref_cnt (fd_data a (fd pd)) =
              rd_ref_cnt (fd_data b (fd pd)) - (if (events pd AND POLLIN) \<noteq> 0 then 1 else 0)"
    by (simp add: a_def pollset_del_body_fd_data dec_ref_cnts_fd_data)
  have wr: "wr_ref_cnt (fd_data a (fd pd)) =
              wr_ref_cnt (fd_data b (fd pd)) - (if (events pd AND POLLOUT) \<noteq> 0 then 1 else 0)"
    by (simp add: a_def pollset_del_body_fd_data dec_ref_cnts_fd_data)
  have ex: "ex_ref_cnt (fd_data a (fd pd)) =
              ex_ref_cnt (fd_data b (fd pd)) - (if (events pd AND POLLPRI) \<noteq> 0 then 1 else 0)"
    by (simp add: a_def pollset_del_body_fd_data dec_ref_cnts_fd_data)
  have nolog: "fd_revents (fd_data s (fd pd)) \<noteq> 0 \<longrightarrow> ctl_log a = ctl_log b"
    by (subst log) simp
  have "rd_ref_cnt (fd_data a (fd pd)) =
              rd_ref_cnt (fd_data b (fd pd)) - (if (events pd AND POLLIN) \<noteq> 0 then 1 else 0)
          \<and> wr_ref_cnt (fd_data a (fd pd)) =
              wr_ref_cnt (fd_data b (fd pd)) - (if (events pd AND POLLOUT) \<noteq> 0 then 1 else 0)
          \<and> ex_ref_cnt (fd_data a (fd pd)) =
              ex_ref_cnt (fd_data b (fd pd)) - (if (events pd AND POLLPRI) \<noteq> 0 then 1 else 0)
          \<and> fd_revents (fd_data a (fd pd)) = fd_revents (fd_data s (fd pd))
          \<and> fd_revents (fd_data b (fd pd)) = fd_revents (fd_data s (fd pd))
          \<and> (fd_revents (fd_data s (fd pd)) \<noteq> 0 \<longrightarrow> ctl_log a = ctl_log b)
          \<and> ctl_log a = ctl_log b @
              (if ST_EPOLL_EVENTS a (fd pd) \<noteq> ST_EPOLL_EVENTS b (fd pd)
                  \<and> fd_revents (fd_data s (fd pd)) = 0
               then [(if ST_EPOLL_EVENTS a (fd pd) \<noteq> 0 then EPOLL_CTL_MOD else EPOLL_CTL_DEL,
                      fd pd, ST_EPOLL_EVENTS a (fd pd))]
               else [])"
    using rd wr ex ra rb nolog log by (intro conjI)
  then show ?thesis
    unfolding Let_def a b_def [symmetric] pd_def [symmetric] .
qed


theorem pollset_del_skips_latched_fd_witness:
  "rd_ref_cnt (fd_data (st_epoll_pollset_del latched_runtime
       [\<lparr>fd = 5, events = POLLIN, revents = 0\<rparr>]) 5) = 0
   \<and> ST_EPOLL_EVENTS latched_runtime 5 = EPOLLIN
   \<and> ST_EPOLL_EVENTS (st_epoll_pollset_del latched_runtime
       [\<lparr>fd = 5, events = POLLIN, revents = 0\<rparr>]) 5 = 0
   \<and> ctl_log (st_epoll_pollset_del latched_runtime [\<lparr>fd = 5, events = POLLIN, revents = 0\<rparr>]) = []
   \<and> rd_ref_cnt (fd_data (st_epoll_pollset_del reader_runtime
       [\<lparr>fd = 5, events = POLLIN, revents = 0\<rparr>]) 5) = 0
   \<and> ctl_log (st_epoll_pollset_del reader_runtime [\<lparr>fd = 5, events = POLLIN, revents = 0\<rparr>])
       = [(EPOLL_CTL_DEL, 5, 0)]"
proof -
  have l: "fd_data latched_runtime 5 = \<lparr>rd_ref_cnt = 1, wr_ref_cnt = 0, ex_ref_cnt = 0, fd_revents = EPOLLIN\<rparr>"
    "ctl_log latched_runtime = []"
    by (simp_all add: latched_runtime_def init_runtime_def)
  have r: "fd_data reader_runtime 5 = \<lparr>rd_ref_cnt = 1, wr_ref_cnt = 0, ex_ref_cnt = 0, fd_revents = 0\<rparr>"
    "ctl_log reader_runtime = []"
    by (simp_all add: reader_runtime_def init_runtime_def)
  have m: "ST_EPOLL_EVENTS latched_runtime 5 = EPOLLIN" "ST_EPOLL_EVENTS reader_runtime 5 = EPOLLIN"
    by (simp_all add: ST_EPOLL_EVENTS_def l r)
  have m': "ST_EPOLL_EVENTS (st_epoll_pollset_del latched_runtime
       [\<lparr>fd = 5, events = POLLIN, revents = 0\<rparr>]) 5 = 0"
     "ST_EPOLL_EVENTS (st_epoll_pollset_del reader_runtime
       [\<lparr>fd = 5, events = POLLIN, revents = 0\<rparr>]) 5 = 0"
    by (simp_all add: ST_EPOLL_EVENTS_def pollset_del_body_fd_data dec_ref_cnts_fd_data l r)
  show ?thesis
    using pollset_del_skips_latched_fd [of 0 "[\<lparr>fd = 5, events = POLLIN, revents = 0\<rparr>]" latched_runtime]
      pollset_del_skips_latched_fd [of 0 "[\<lparr>fd = 5, events = POLLIN, revents = 0\<rparr>]" reader_runtime]
    by (simp add: Let_def l r m m' del: st_epoll_pollset_del.simps(2))
qed

section \<open>Inserting into the sleep heap\<close>

lemma heap_insert_bits_returns_only_zero:
  assumes "heap_insert_bits sz nbits = Some r"
  shows "sz = 0"
proof (rule heap_insert_bits.raw_induct [where P = "\<lambda>a b c. a = 0", OF _ assms])
  fix f :: "int \<Rightarrow> int \<Rightarrow> int option" and a b c :: int
  assume ih: "\<And>x y z. f x y = Some z \<Longrightarrow> x = 0"
    and run: "(if a \<noteq> 0 then f a (b + 1) else Some b) = Some c"
  show "a = 0"
  proof (rule ccontr)
    assume "a \<noteq> 0"
    with run have "f a (b + 1) = Some c" by simp
    then have "a = 0" by (rule ih)
    with \<open>a \<noteq> 0\<close> show False by simp
  qed
qed

lemma heap_insert_bits_diverges: "sz \<noteq> 0 \<Longrightarrow> heap_insert_bits sz nbits = None"
  using heap_insert_bits_returns_only_zero [of sz nbits] by (cases "heap_insert_bits sz nbits") auto

lemma heap_insert_bits_zero: "heap_insert_bits 0 nbits = Some nbits"
  by (subst heap_insert_bits.simps) simp

lemma heap_insert_hangs:
  "heap_index (threads s thread) \<noteq> 0 \<Longrightarrow> heap_insert s thread = Inl Hang"
  by (simp add: heap_insert_def heap_insert_bits_diverges)

text \<open>
  C1.  \<^verbatim>\<open>_st_add_sleep_q\<close> stores the incremented size in \<^verbatim>\<open>heap_index\<close> and calls
  \<^verbatim>\<open>heap_insert\<close>, whose first loop runs while that index is nonzero and never changes it.
  Unless the size was \<open>- 1\<close>, the insertion does not terminate, on an empty heap and on a
  non-empty one, whatever the thread and the timeout: the fiber is never placed.
\<close>

theorem add_sleep_q_never_returns:
  assumes "sleepq_size s \<noteq> - 1"
  shows "st_add_sleep_q s thread timeout = Inl Hang"
proof -
  define s4 where "s4 = upd_thread thread (\<lambda>th. th\<lparr>heap_index := sleepq_size s + 1\<rparr>)
      ((upd_thread thread (\<lambda>th. th\<lparr>flags := flags th OR ST_FL_ON_SLEEPQ\<rparr>)
         (upd_thread thread (\<lambda>th. th\<lparr>due := last_clock s + timeout\<rparr>) s))
       \<lparr>sleepq_size := sleepq_size s + 1\<rparr>)"
  have "heap_index (threads s4 thread) = sleepq_size s + 1"
    by (simp add: s4_def upd_thread_def)
  with assms have "heap_index (threads s4 thread) \<noteq> 0"
    by simp
  then have "heap_insert s4 thread = Inl Hang"
    by (rule heap_insert_hangs)
  moreover have "st_add_sleep_q s thread timeout =
      (case heap_insert s4 thread of Inl e \<Rightarrow> Inl e | Inr (s5, p) \<Rightarrow> Inr s5)"
    by (simp add: st_add_sleep_q_def s4_def Let_def upd_thread_def)
  ultimately show ?thesis
    by simp
qed

theorem add_sleep_q_never_returns_witness:
  "sleepq_size one_sleeper_runtime = 1
   \<and> st_add_sleep_q one_sleeper_runtime 11 50 = Inl Hang
   \<and> sleepq_size init_runtime = 0
   \<and> st_add_sleep_q init_runtime 11 50 = Inl Hang"
  using add_sleep_q_never_returns [of one_sleeper_runtime 11 50]
    add_sleep_q_never_returns [of init_runtime 11 50]
  by (simp add: one_sleeper_runtime_def init_runtime_def)

section \<open>Signalling a waiter that is not on the sleep heap\<close>

lemma heap_delete_bits_zero: "heap_delete_bits 0 nbits = Some nbits"
  by (subst heap_delete_bits.simps) simp

lemma heap_delete_empty_faults:
  assumes "sleep_q s = None" and "sleepq_size s = 0"
  shows "heap_delete s thread = Inl NullDeref"
  using assms by (simp add: heap_delete_def heap_delete_bits_zero heap_delete_path.simps)

text \<open>
  C6.  \<^verbatim>\<open>_st_cond_signal\<close> calls \<^verbatim>\<open>_ST_DEL_SLEEPQ\<close> for a waiter in state \<^verbatim>\<open>_ST_ST_COND_WAIT\<close>
  without testing its flag \<^verbatim>\<open>_ST_FL_ON_SLEEPQ\<close>.  When the sleep heap is empty, \<^verbatim>\<open>heap_delete\<close>
  takes NULL for the last element and dereferences it: signal and broadcast fault instead of
  returning with the heap, the flags and the size consistent.
\<close>

theorem cond_signal_faults_on_empty_heap:
  assumes "wait_q (conds s cvar) = thread # q"
    and "state (threads s thread) = ST_ST_COND_WAIT"
    and "sleep_q s = None" and "sleepq_size s = 0"
  shows "u_st_cond_signal s cvar broadcast = Inl NullDeref"
proof -
  have "heap_delete s thread = Inl NullDeref"
    using assms(3,4) by (rule heap_delete_empty_faults)
  then have del: "st_del_sleep_q s thread = Inl NullDeref"
    by (simp add: st_del_sleep_q_def)
  have "cond_signal_loop s (thread # q) broadcast = Inl NullDeref"
    using assms(2) del by simp
  then show ?thesis
    using assms(1) by (simp add: u_st_cond_signal_def)
qed

theorem cond_signal_faults_on_empty_heap_witness:
  "wait_q (conds cond_waiter_runtime 7) = [20]
   \<and> state (threads cond_waiter_runtime 20) = ST_ST_COND_WAIT
   \<and> (flags (threads cond_waiter_runtime 20) AND ST_FL_ON_SLEEPQ) = 0
   \<and> sleep_q cond_waiter_runtime = None
   \<and> st_cond_signal cond_waiter_runtime 7 = Inl NullDeref
   \<and> st_cond_broadcast cond_waiter_runtime 7 = Inl NullDeref"
  using cond_signal_faults_on_empty_heap [of cond_waiter_runtime 7 20 "[]" 0]
    cond_signal_faults_on_empty_heap [of cond_waiter_runtime 7 20 "[]" 1]
  by (simp add: cond_waiter_runtime_def init_runtime_def zero_thread_def
      st_cond_signal_def st_cond_broadcast_def)

text \<open>
  For a fiber that is on the heap the removal does its work: the only sleeper is unlinked, the
  heap is empty, the size is 0 and the flag is cleared.
\<close>

lemma del_sleep_q_only_sleeper:
  "\<exists>s'. st_del_sleep_q one_sleeper_runtime 10 = Inr s'
     \<and> sleep_q s' = None \<and> sleepq_size s' = 0
     \<and> (flags (threads s' 10) AND ST_FL_ON_SLEEPQ) = 0"
  by (simp add: st_del_sleep_q_def heap_delete_def heap_delete_bits.simps heap_delete_path.simps
      one_sleeper_runtime_def init_runtime_def zero_thread_def sleeper_def upd_thread_def Let_def)

text \<open>
  With sleepers on the heap the same call returns, and the heap is left in pieces: in
  \<open>two_sleepers_runtime\<close> the last element 11 is unlinked and put at the root in place of 10,
  with the links of the waiter, which has none.  Thread 10 keeps its flag, is reachable from
  the root no more, and the size is 1.
\<close>

lemma cond_signal_loses_sleeper:
  "\<exists>s'. st_cond_signal two_sleepers_runtime 7 = Inr (s', 0)
     \<and> sleep_q s' = Some 11 \<and> left (threads s' 11) = None \<and> right (threads s' 11) = None
     \<and> sleepq_size s' = 1
     \<and> (flags (threads s' 10) AND ST_FL_ON_SLEEPQ) \<noteq> 0
     \<and> (flags (threads s' 11) AND ST_FL_ON_SLEEPQ) \<noteq> 0
     \<and> state (threads s' 20) = ST_ST_RUNNABLE \<and> run_q s' = [20]"
  by (simp add: st_cond_signal_def u_st_cond_signal_def two_sleepers_runtime_def init_runtime_def
      zero_thread_def sleeper_def st_del_sleep_q_def heap_delete_def heap_delete_bits.simps
      heap_delete_path.simps heap_insert_def heap_insert_bits_zero heap_insert_walk.simps
      heap_sift.simps upd_thread_def Let_def)

section \<open>What st_poll returns\<close>

lemma poll_resumed_result:
  "st_poll_resumed s me = (s', n) \<Longrightarrow> n = 0 \<or> n = - 1"
  by (auto simp: st_poll_resumed_def Let_def split: prod.splits if_splits)

lemma poll_result:
  assumes "st_poll sched s ps timeout = Inr (s', n)"
  shows "n = 0 \<or> n = - 1"
  using assms
  by (auto simp: st_poll_def Let_def split: if_splits sum.splits prod.splits
      dest: poll_resumed_result)

text \<open>
  C2.  When \<^verbatim>\<open>st_poll\<close> is resumed with its \<^verbatim>\<open>_st_pollq_t\<close> off the I/O queue (taken off by
  the dispatch pass, for a ready descriptor) and the fiber not interrupted, it returns 0 and
  changes nothing, however many entries of the array have nonzero \<^verbatim>\<open>revents\<close>: the count is
  taken over \<^verbatim>\<open>events\<close> and then dropped by \<^verbatim>\<open>return 0\<close>.  No call of \<^verbatim>\<open>st_poll\<close> returns
  anything but 0 or \<open>- 1\<close>.
\<close>

theorem poll_ready_returns_zero:
  "(on_ioq (pollqs r me) = 0 \<and> (flags (threads r me) AND ST_FL_INTERRUPT) = 0 \<longrightarrow>
      st_poll_resumed r me = (r, 0))
   \<and> (st_poll sched s ps timeout = Inr (s', n) \<longrightarrow> n = 0 \<or> n = - 1)"
proof (intro conjI impI)
  assume "on_ioq (pollqs r me) = 0 \<and> (flags (threads r me) AND ST_FL_INTERRUPT) = 0"
  then show "st_poll_resumed r me = (r, 0)"
    by (simp add: st_poll_resumed_def)
next
  assume "st_poll sched s ps timeout = Inr (s', n)"
  then show "n = 0 \<or> n = - 1"
    by (rule poll_result)
qed

theorem poll_ready_returns_zero_witness:
  "on_ioq (pollqs ready_poll_runtime 1) = 0
   \<and> (flags (threads ready_poll_runtime 1) AND ST_FL_INTERRUPT) = 0
   \<and> int (length (filter (\<lambda>pd. revents pd \<noteq> 0) (pq_pds (pollqs ready_poll_runtime 1)))) = 1
   \<and> st_poll_resumed ready_poll_runtime 1 = (ready_poll_runtime, 0)
   \<and> st_poll (\<lambda>s. Some ready_poll_runtime) init_runtime
         [\<lparr>fd = 5, events = POLLIN, revents = 0\<rparr>] ST_UTIME_NO_TIMEOUT
       = Inr (ready_poll_runtime, 0)"
proof -
  have r: "on_ioq (pollqs ready_poll_runtime 1) = 0"
    "(flags (threads ready_poll_runtime 1) AND ST_FL_INTERRUPT) = 0"
    "int (length (filter (\<lambda>pd. revents pd \<noteq> 0) (pq_pds (pollqs ready_poll_runtime 1)))) = 1"
    by (simp_all add: ready_poll_runtime_def init_runtime_def zero_thread_def)
  have resumed: "st_poll_resumed ready_poll_runtime 1 = (ready_poll_runtime, 0)"
    using poll_ready_returns_zero [of ready_poll_runtime 1] r by simp
  have "st_poll (\<lambda>s. Some ready_poll_runtime) init_runtime
         [\<lparr>fd = 5, events = POLLIN, revents = 0\<rparr>] ST_UTIME_NO_TIMEOUT
       = Inr (st_poll_resumed ready_poll_runtime 1)"
    by (simp add: st_poll_def switch_context_def st_epoll_pollset_add_def inc_ref_cnts_def
        upd_fd_def ST_EPOLL_EVENTS_def epoll_ctl_def init_runtime_def zero_thread_def Let_def)
  then show ?thesis
    using r resumed by simp
qed

text \<open>
  C8.  Whenever \<^verbatim>\<open>st_netfd_poll\<close> returns, it returns \<open>- 1\<close>: \<^verbatim>\<open>st_poll\<close> gives it 0 or \<open>- 1\<close> and
  never a positive count, and it turns 0 into the error \<^verbatim>\<open>ETIME\<close>, also when the awaited event
  fired before any deadline.
\<close>

theorem netfd_poll_never_succeeds:
  assumes "st_netfd_poll sched s nfd how timeout = Inr (s', rv)"
  shows "rv = - 1"
  using assms
  by (auto simp: st_netfd_poll_def Let_def split: sum.splits prod.splits if_splits
      dest: poll_result)

lemma netfd_poll_ready_example:
  "st_netfd_poll (\<lambda>s. Some ready_poll_runtime) init_runtime 5 1 ST_UTIME_NO_TIMEOUT
     = Inr (ready_poll_runtime\<lparr>errno := ETIME\<rparr>, - 1)"
  by (simp add: st_netfd_poll_def st_poll_def st_poll_resumed_def switch_context_def
      st_epoll_pollset_add_def inc_ref_cnts_def upd_fd_def ST_EPOLL_EVENTS_def epoll_ctl_def
      ready_poll_runtime_def init_runtime_def zero_thread_def upd_thread_def Let_def)

theorem netfd_poll_never_succeeds_witness:
  "(revents (hd (pq_pds (pollqs ready_poll_runtime 1))) AND POLLIN) \<noteq> 0
   \<and> st_netfd_poll (\<lambda>s. Some ready_poll_runtime) init_runtime 5 1 ST_UTIME_NO_TIMEOUT
       = Inr (ready_poll_runtime\<lparr>errno := ETIME\<rparr>, - 1)"
  using netfd_poll_never_succeeds [OF netfd_poll_ready_example] netfd_poll_ready_example
  by (simp add: ready_poll_runtime_def init_runtime_def)

section \<open>Entering a suspending call with the interrupt flag set\<close>

text \<open>
  C5.  Entered with the interrupt flag of the caller set, \<^verbatim>\<open>st_usleep\<close>,
  \<^verbatim>\<open>st_cond_timedwait\<close> and \<^verbatim>\<open>st_mutex_lock\<close> fail with \<^verbatim>\<open>EINTR\<close> and leave the flag set: the
  state they return differs from the one they got in \<^verbatim>\<open>errno\<close> only.  \<^verbatim>\<open>st_poll\<close> fails with
  \<^verbatim>\<open>EINTR\<close> and clears the flag.
\<close>

theorem interrupted_entry_keeps_flag:
  assumes "(flags (threads s (this_thread s)) AND ST_FL_INTERRUPT) \<noteq> 0"
  shows "st_usleep sched s usecs = Inr (s\<lparr>errno := EINTR\<rparr>, - 1)
       \<and> st_cond_timedwait sched s cvar timeout = Inr (s\<lparr>errno := EINTR\<rparr>, - 1)
       \<and> st_mutex_lock sched s lock = Inr (s\<lparr>errno := EINTR\<rparr>, - 1)
       \<and> (flags (threads (s\<lparr>errno := EINTR\<rparr>) (this_thread s)) AND ST_FL_INTERRUPT) \<noteq> 0
       \<and> st_poll sched s ps timeout =
           Inr ((upd_thread (this_thread s) (\<lambda>th. th\<lparr>flags := flags th AND NOT ST_FL_INTERRUPT\<rparr>) s)
                  \<lparr>errno := EINTR\<rparr>, - 1)"
proof -
  have sleep: "st_usleep sched s usecs = Inr (s\<lparr>errno := EINTR\<rparr>, - 1)"
    using assms by (simp add: st_usleep_def)
  have wait: "st_cond_timedwait sched s cvar timeout = Inr (s\<lparr>errno := EINTR\<rparr>, - 1)"
    using assms by (simp add: st_cond_timedwait_def)
  have lock: "st_mutex_lock sched s lock = Inr (s\<lparr>errno := EINTR\<rparr>, - 1)"
    using assms by (simp add: st_mutex_lock_def)
  have kept: "(flags (threads (s\<lparr>errno := EINTR\<rparr>) (this_thread s)) AND ST_FL_INTERRUPT) \<noteq> 0"
    using assms by simp
  have poll: "st_poll sched s ps timeout =
      Inr ((upd_thread (this_thread s) (\<lambda>th. th\<lparr>flags := flags th AND NOT ST_FL_INTERRUPT\<rparr>) s)
             \<lparr>errno := EINTR\<rparr>, - 1)"
    using assms by (simp add: st_poll_def)
  from sleep wait lock kept poll show ?thesis
    by (intro conjI)
qed

theorem interrupted_entry_keeps_flag_witness:
  "st_thread_interrupt init_runtime 1 = Inr interrupted_runtime
   \<and> (flags (threads interrupted_runtime 1) AND ST_FL_INTERRUPT) \<noteq> 0
   \<and> st_usleep (\<lambda>s. None) interrupted_runtime 1000 = Inr (interrupted_runtime\<lparr>errno := EINTR\<rparr>, - 1)
   \<and> st_cond_timedwait (\<lambda>s. None) interrupted_runtime 7 1000 = Inr (interrupted_runtime\<lparr>errno := EINTR\<rparr>, - 1)
   \<and> st_mutex_lock (\<lambda>s. None) interrupted_runtime 9 = Inr (interrupted_runtime\<lparr>errno := EINTR\<rparr>, - 1)
   \<and> (flags (threads (interrupted_runtime\<lparr>errno := EINTR\<rparr>) 1) AND ST_FL_INTERRUPT) \<noteq> 0"
  using interrupted_entry_keeps_flag [of interrupted_runtime "\<lambda>s. None" 1000 7 1000 9 "[]"]
  by (simp add: interrupted_runtime_def init_runtime_def zero_thread_def
      st_thread_interrupt_def upd_thread_def)

section \<open>A created thread cannot be joined\<close>

text \<open>
  C3.  \<^verbatim>\<open>st_thread_create\<close> never reads \<^verbatim>\<open>joinable\<close>: the control block it returns has
  \<^verbatim>\<open>term\<close> NULL after the \<^verbatim>\<open>memset\<close>, whatever \<^verbatim>\<open>joinable\<close> was, and \<^verbatim>\<open>st_thread_join\<close> on the
  new thread fails at once with \<^verbatim>\<open>EINVAL\<close>, the error for a detached thread.
\<close>

theorem created_thread_is_never_joinable:
  assumes "st_thread_create s start_fn arg_p joinable size_arg = Inr (s', Some thread)"
  shows "term_cv (threads s' thread) = None
       \<and> st_thread_join sched s' thread want_retval = Inr (s'\<lparr>errno := EINVAL\<rparr>, - 1, None)"
proof -
  have "term_cv (threads s' thread) = None"
    using assms
    by (auto simp: st_thread_create_def Let_def upd_thread_def zero_thread_def
        split: if_splits option.splits prod.splits)
  then show ?thesis
    by (simp add: st_thread_join_def)
qed

theorem created_thread_is_never_joinable_witness:
  "\<exists>s'. st_thread_create init_runtime 100 0 1 0 = Inr (s', Some 1052672)
      \<and> term_cv (threads s' 1052672) = None
      \<and> st_thread_join (\<lambda>s. Some s) s' 1052672 True = Inr (s'\<lparr>errno := EINVAL\<rparr>, - 1, None)"
proof -
  obtain s' where c: "st_thread_create init_runtime 100 0 1 0 = Inr (s', Some 1052672)"
    by (simp add: st_thread_create_def st_stack_new_def st_new_stk_segment_def stack_writable_def
        wrap_int_def Let_def init_runtime_def)
  show ?thesis
    using created_thread_is_never_joinable [OF c, of "\<lambda>s. Some s" True] c by blast
qed


section \<open>Which error a condition wait reports\<close>

lemma clear_interrupt_keeps_timedout:
  "((f AND - 9) AND 16) = (f AND 16)" for f :: "32 word"
proof -
  have "(- 9 AND 16 :: 32 word) = 16"
    by simp
  then show ?thesis
    by (simp add: and.assoc)
qed


text \<open>
  A wait that is resumed with one of the two flags set fails with the error of that flag, and
  with neither it succeeds.
\<close>

lemma cond_timedwait_one_flag:
  "st_cond_timedwait_resumed s me cvar = (s', rv) \<Longrightarrow>
     ((flags (threads s me) AND ST_FL_INTERRUPT) \<noteq> 0 \<and> (flags (threads s me) AND ST_FL_TIMEDOUT) = 0
        \<longrightarrow> rv = - 1 \<and> errno s' = EINTR)
   \<and> ((flags (threads s me) AND ST_FL_INTERRUPT) = 0 \<and> (flags (threads s me) AND ST_FL_TIMEDOUT) \<noteq> 0
        \<longrightarrow> rv = - 1 \<and> errno s' = ETIME)
   \<and> ((flags (threads s me) AND ST_FL_INTERRUPT) = 0 \<and> (flags (threads s me) AND ST_FL_TIMEDOUT) = 0
        \<longrightarrow> rv = 0 \<and> errno s' = errno s)"
  by (auto simp: st_cond_timedwait_resumed_def Let_def upd_cond_def upd_thread_def
      clear_interrupt_keeps_timedout split: if_splits prod.splits)

text \<open>
  The timeout flag is cleared nowhere: a wait that is resumed with it fails with \<^verbatim>\<open>ETIME\<close> and
  leaves it set for the next wait of the fiber.
\<close>

lemma cond_timedwait_timedout_sticks:
  assumes "(flags (threads s me) AND ST_FL_TIMEDOUT) \<noteq> 0"
    and "st_cond_timedwait_resumed s me cvar = (s', rv)"
  shows "rv = - 1 \<and> errno s' = ETIME \<and> (flags (threads s' me) AND ST_FL_TIMEDOUT) \<noteq> 0"
  using assms
  by (auto simp: st_cond_timedwait_resumed_def Let_def upd_cond_def upd_thread_def
      clear_interrupt_keeps_timedout split: if_splits prod.splits)




section \<open>Unlocking a mutex hands it to the first waiter\<close>

lemma mutex_unlock_scan_first_waiter:
  assumes "\<forall>u\<in>set pre. state (threads s u) \<noteq> ST_ST_LOCK_WAIT"
    and "state (threads s thread) = ST_ST_LOCK_WAIT"
  shows "mutex_unlock_scan s lock (pre @ thread # post) =
     (upd_thread thread (\<lambda>th. th\<lparr>state := ST_ST_RUNNABLE\<rparr>)
        (upd_mutex lock (\<lambda>m. m\<lparr>owner := Some thread\<rparr>) s))\<lparr>run_q := run_q s @ [thread]\<rparr>"
  using assms
  by (induction pre) (simp_all add: Let_def upd_thread_def upd_mutex_def)

lemma mutex_unlock_scan_no_waiter:
  assumes "\<forall>u\<in>set q. state (threads s u) \<noteq> ST_ST_LOCK_WAIT"
  shows "mutex_unlock_scan s lock q = upd_mutex lock (\<lambda>m. m\<lparr>owner := None\<rparr>) s"
  using assms by (induction q) simp_all

text \<open>
  C7.  \<^verbatim>\<open>st_mutex_unlock\<close> called by a fiber that is not the owner fails with \<^verbatim>\<open>EPERM\<close> and
  changes nothing but \<^verbatim>\<open>errno\<close>.  Called by the owner, with \<open>thread\<close> the first fiber of the
  wait queue in state \<^verbatim>\<open>_ST_ST_LOCK_WAIT\<close>, it makes \<open>thread\<close> the owner in one assignment,
  marks it runnable and appends it to the run queue, and changes nothing else (the wait queue
  keeps its members); with no fiber in that state on the wait queue it sets the owner to NULL.
\<close>

theorem mutex_unlock_hands_over:
  "(owner (mutexes s lock) \<noteq> Some (this_thread s) \<longrightarrow>
       st_mutex_unlock s lock = (s\<lparr>errno := EPERM\<rparr>, - 1))
   \<and> (owner (mutexes s lock) = Some (this_thread s) \<longrightarrow>
        (\<forall>pre thread post.
            lock_wait_q (mutexes s lock) = pre @ thread # post
            \<and> (\<forall>u\<in>set pre. state (threads s u) \<noteq> ST_ST_LOCK_WAIT)
            \<and> state (threads s thread) = ST_ST_LOCK_WAIT \<longrightarrow>
            st_mutex_unlock s lock =
              ((upd_thread thread (\<lambda>th. th\<lparr>state := ST_ST_RUNNABLE\<rparr>)
                  (upd_mutex lock (\<lambda>m. m\<lparr>owner := Some thread\<rparr>) s))
                 \<lparr>run_q := run_q s @ [thread]\<rparr>, 0))
        \<and> ((\<forall>u\<in>set (lock_wait_q (mutexes s lock)). state (threads s u) \<noteq> ST_ST_LOCK_WAIT) \<longrightarrow>
            st_mutex_unlock s lock = (upd_mutex lock (\<lambda>m. m\<lparr>owner := None\<rparr>) s, 0)))"
proof (intro conjI impI allI)
  assume "owner (mutexes s lock) \<noteq> Some (this_thread s)"
  then show "st_mutex_unlock s lock = (s\<lparr>errno := EPERM\<rparr>, - 1)"
    by (simp add: st_mutex_unlock_def)
next
  fix pre thread post
  assume own: "owner (mutexes s lock) = Some (this_thread s)"
    and first: "lock_wait_q (mutexes s lock) = pre @ thread # post
      \<and> (\<forall>u\<in>set pre. state (threads s u) \<noteq> ST_ST_LOCK_WAIT)
      \<and> state (threads s thread) = ST_ST_LOCK_WAIT"
  have "mutex_unlock_scan s lock (pre @ thread # post) =
     (upd_thread thread (\<lambda>th. th\<lparr>state := ST_ST_RUNNABLE\<rparr>)
        (upd_mutex lock (\<lambda>m. m\<lparr>owner := Some thread\<rparr>) s))\<lparr>run_q := run_q s @ [thread]\<rparr>"
    using first by (intro mutex_unlock_scan_first_waiter) simp_all
  then show "st_mutex_unlock s lock =
      ((upd_thread thread (\<lambda>th. th\<lparr>state := ST_ST_RUNNABLE\<rparr>)
          (upd_mutex lock (\<lambda>m. m\<lparr>owner := Some thread\<rparr>) s))
         \<lparr>run_q := run_q s @ [thread]\<rparr>, 0)"
    using own first by (simp add: st_mutex_unlock_def)
next
  assume own: "owner (mutexes s lock) = Some (this_thread s)"
    and none: "\<forall>u\<in>set (lock_wait_q (mutexes s lock)). state (threads s u) \<noteq> ST_ST_LOCK_WAIT"
  have "mutex_unlock_scan s lock (lock_wait_q (mutexes s lock)) =
      upd_mutex lock (\<lambda>m. m\<lparr>owner := None\<rparr>) s"
    using none by (rule mutex_unlock_scan_no_waiter)
  then show "st_mutex_unlock s lock = (upd_mutex lock (\<lambda>m. m\<lparr>owner := None\<rparr>) s, 0)"
    using own by (simp add: st_mutex_unlock_def)
qed


theorem mutex_unlock_hands_over_witness:
  "owner (mutexes handoff_runtime 9) = Some (this_thread handoff_runtime)
   \<and> lock_wait_q (mutexes handoff_runtime 9) = [40, 41, 42]
   \<and> state (threads handoff_runtime 40) = ST_ST_RUNNABLE
   \<and> state (threads handoff_runtime 41) = ST_ST_LOCK_WAIT
   \<and> snd (st_mutex_unlock handoff_runtime 9) = 0
   \<and> owner (mutexes (fst (st_mutex_unlock handoff_runtime 9)) 9) = Some 41
   \<and> state (threads (fst (st_mutex_unlock handoff_runtime 9)) 41) = ST_ST_RUNNABLE
   \<and> state (threads (fst (st_mutex_unlock handoff_runtime 9)) 42) = ST_ST_LOCK_WAIT
   \<and> run_q (fst (st_mutex_unlock handoff_runtime 9)) = [40, 41]
   \<and> lock_wait_q (mutexes (fst (st_mutex_unlock handoff_runtime 9)) 9) = [40, 41, 42]
   \<and> st_mutex_unlock (handoff_runtime\<lparr>this_thread := 41\<rparr>) 9
       = (handoff_runtime\<lparr>this_thread := 41, errno := EPERM\<rparr>, - 1)
   \<and> owner (mutexes (fst (st_mutex_unlock
         (upd_mutex 9 (\<lambda>m. m\<lparr>lock_wait_q := [40]\<rparr>) handoff_runtime) 9)) 9) = None"
proof -
  have facts: "owner (mutexes handoff_runtime 9) = Some (this_thread handoff_runtime)"
    "lock_wait_q (mutexes handoff_runtime 9) = [40] @ 41 # [42]"
    "\<forall>u\<in>set [40]. state (threads handoff_runtime u) \<noteq> ST_ST_LOCK_WAIT"
    "state (threads handoff_runtime 41) = ST_ST_LOCK_WAIT"
    "state (threads handoff_runtime 42) = ST_ST_LOCK_WAIT"
    "run_q handoff_runtime = [40]"
    "state (threads handoff_runtime 40) = ST_ST_RUNNABLE"
    by (simp_all add: handoff_runtime_def init_runtime_def zero_thread_def)
  have handed: "st_mutex_unlock handoff_runtime 9 =
      ((upd_thread 41 (\<lambda>th. th\<lparr>state := ST_ST_RUNNABLE\<rparr>)
          (upd_mutex 9 (\<lambda>m. m\<lparr>owner := Some 41\<rparr>) handoff_runtime))
         \<lparr>run_q := run_q handoff_runtime @ [41]\<rparr>, 0)"
    using mutex_unlock_hands_over [of handoff_runtime 9] facts by blast
  have other: "owner (mutexes (handoff_runtime\<lparr>this_thread := 41\<rparr>) 9)
      \<noteq> Some (this_thread (handoff_runtime\<lparr>this_thread := 41\<rparr>))"
    by (simp add: handoff_runtime_def init_runtime_def)
  have refused: "st_mutex_unlock (handoff_runtime\<lparr>this_thread := 41\<rparr>) 9
       = (handoff_runtime\<lparr>this_thread := 41, errno := EPERM\<rparr>, - 1)"
    using mutex_unlock_hands_over [of "handoff_runtime\<lparr>this_thread := 41\<rparr>" 9] other by simp
  have alone: "owner (mutexes (upd_mutex 9 (\<lambda>m. m\<lparr>lock_wait_q := [40]\<rparr>) handoff_runtime) 9)
        = Some (this_thread (upd_mutex 9 (\<lambda>m. m\<lparr>lock_wait_q := [40]\<rparr>) handoff_runtime))"
    "\<forall>u\<in>set (lock_wait_q (mutexes (upd_mutex 9 (\<lambda>m. m\<lparr>lock_wait_q := [40]\<rparr>) handoff_runtime) 9)).
        state (threads (upd_mutex 9 (\<lambda>m. m\<lparr>lock_wait_q := [40]\<rparr>) handoff_runtime) u) \<noteq> ST_ST_LOCK_WAIT"
    by (simp_all add: handoff_runtime_def init_runtime_def zero_thread_def upd_mutex_def)
  have freed: "st_mutex_unlock (upd_mutex 9 (\<lambda>m. m\<lparr>lock_wait_q := [40]\<rparr>) handoff_runtime) 9 =
      (upd_mutex 9 (\<lambda>m. m\<lparr>owner := None\<rparr>) (upd_mutex 9 (\<lambda>m. m\<lparr>lock_wait_q := [40]\<rparr>) handoff_runtime), 0)"
    using mutex_unlock_hands_over [of "upd_mutex 9 (\<lambda>m. m\<lparr>lock_wait_q := [40]\<rparr>) handoff_runtime" 9] alone
    by blast
  show ?thesis
    unfolding handed refused freed
    using facts by (simp add: upd_thread_def upd_mutex_def)
qed

end
